theory Spec2Isabelle
  imports Complex_Main "HOL-Library.AList" "HOL-Library.Sublist"
begin

section \<open>JSON documents as Python sees them\<close>

text \<open>
  Both tools read a scene with \<^verbatim>\<open>json.load\<close> and work on the Python value it returns:
  \<^verbatim>\<open>None\<close>, \<^verbatim>\<open>bool\<close>, \<^verbatim>\<open>int\<close>, \<^verbatim>\<open>float\<close>, \<^verbatim>\<open>str\<close>, \<^verbatim>\<open>list\<close> and \<^verbatim>\<open>dict\<close>.
  A \<^verbatim>\<open>dict\<close> keeps its keys in insertion order, so it is an association list; a real
  \<^verbatim>\<open>dict\<close> has no key twice. A \<^verbatim>\<open>float\<close> carries the exact value of a finite double.
  A freshly loaded document is a tree (no object is shared between two places), so
  updating a nested mapping in place is the same as rebuilding the path to it.
\<close>

datatype json =
    JNull
  | JBool bool
  | JInt int
  | JFloat rat
  | JStr string
  | JList "json list"
  | JDict "(string \<times> json) list"

datatype error =
    TypeError
  | IndexError
  | KeyError
  | AttributeError
  | ZeroDivisionError
  | ValueError
  | FileNotFoundError
  | JSONDecodeError

text \<open>\<^verbatim>\<open>seq[i]\<close> on a list or a string: a negative index counts from the end.\<close>

definition seq_getitem :: "'a list \<Rightarrow> int \<Rightarrow> error + 'a" where
  "seq_getitem xs i =
     (if 0 \<le> i \<and> i < int (length xs) then Inr (xs ! nat i)
      else if i < 0 \<and> - int (length xs) \<le> i then Inr (xs ! nat (i + int (length xs)))
      else Inl IndexError)"

text \<open>\<^verbatim>\<open>v[i]\<close> with an integer \<open>i\<close>. The keys of a loaded mapping are strings, so an
  integer key is never present; numbers, booleans and \<^verbatim>\<open>None\<close> are not subscriptable.\<close>

fun py_getitem :: "json \<Rightarrow> int \<Rightarrow> error + json" where
  "py_getitem (JList xs) i = seq_getitem xs i"
| "py_getitem (JStr s) i =
     (case seq_getitem s i of Inl e \<Rightarrow> Inl e | Inr c \<Rightarrow> Inr (JStr [c]))"
| "py_getitem (JDict d) i = Inl KeyError"
| "py_getitem v i = Inl TypeError"

text \<open>\<^verbatim>\<open>for e in v\<close>: the elements of a list, the characters of a string, the keys of a
  mapping.\<close>

fun py_iter :: "json \<Rightarrow> error + json list" where
  "py_iter (JList xs) = Inr xs"
| "py_iter (JStr s) = Inr (map (\<lambda>c. JStr [c]) s)"
| "py_iter (JDict d) = Inr (map (\<lambda>kv. JStr (fst kv)) d)"
| "py_iter v = Inl TypeError"

fun py_len :: "json \<Rightarrow> error + nat" where
  "py_len (JList xs) = Inr (length xs)"
| "py_len (JStr s) = Inr (length s)"
| "py_len (JDict d) = Inr (length d)"
| "py_len v = Inl TypeError"

text \<open>Truth value of a Python object, as \<^verbatim>\<open>if not v\<close> tests it.\<close>

fun truthy :: "json \<Rightarrow> bool" where
  "truthy JNull = False"
| "truthy (JBool b) = b"
| "truthy (JInt i) = (i \<noteq> 0)"
| "truthy (JFloat r) = (r \<noteq> 0)"
| "truthy (JStr s) = (s \<noteq> [])"
| "truthy (JList xs) = (xs \<noteq> [])"
| "truthy (JDict d) = (d \<noteq> [])"

text \<open>The numeric value of a number; \<^verbatim>\<open>True\<close> and \<^verbatim>\<open>False\<close> are the integers 1 and 0.\<close>

fun num_val :: "json \<Rightarrow> rat option" where
  "num_val (JBool b) = Some (if b then 1 else 0)"
| "num_val (JInt i) = Some (of_int i)"
| "num_val (JFloat r) = Some r"
| "num_val v = None"

text \<open>\<^verbatim>\<open>v == n\<close> for an integer literal \<open>n\<close>: numbers compare by value, anything else is
  unequal.\<close>

definition py_eq_int :: "json \<Rightarrow> int \<Rightarrow> bool" where
  "py_eq_int v n = (num_val v = Some (of_int n))"

text \<open>\<^verbatim>\<open>v.copy()\<close>: lists and mappings have the method (a shallow copy, the same value);
  no other JSON value has.\<close>

fun py_copy :: "json \<Rightarrow> error + json" where
  "py_copy (JList xs) = Inr (JList xs)"
| "py_copy (JDict d) = Inr (JDict d)"
| "py_copy v = Inl AttributeError"

text \<open>\<^verbatim>\<open>d.get(k, default)\<close> on a mapping.\<close>

definition dict_get :: "(string \<times> json) list \<Rightarrow> string \<Rightarrow> json \<Rightarrow> json" where
  "dict_get d k dflt = (case map_of d k of None \<Rightarrow> dflt | Some v \<Rightarrow> v)"

text \<open>\<^verbatim>\<open>range(n)\<close>: empty when \<open>n\<close> is not positive.\<close>

definition py_range :: "int \<Rightarrow> int list" where
  "py_range n = map int [0..<nat n]"

section \<open>Files and console\<close>

text \<open>
  A file holds a JSON document or text that \<^verbatim>\<open>json.load\<close> rejects; \<^verbatim>\<open>json.dump\<close> writes a
  document that loads back as the same value, so a written file is its document.
  What the scripts print is kept as a list of messages: one constructor for each
  \<^verbatim>\<open>print\<close> that reports a result, and one for each run of consecutive prints of fixed
  text (usage, banner, migration guide). The prompt of \<^verbatim>\<open>input\<close> is not recorded.
\<close>

datatype content = Doc json | Malformed

datatype msg =
    Msg_NotFound
  | Msg_Expected int nat
  | Msg_Expanded int int int int
  | Msg_TileCount nat nat
  | Msg_Success
  | Msg_Failed
  | Msg_Cleaning string
  | Msg_Found json string
  | Msg_Total nat
  | Msg_NoColliders
  | Msg_Cleaned string nat
  | Msg_Backup string
  | Msg_Complete nat
  | Msg_Removed nat
  | Msg_Usage
  | Msg_SceneMissing string
  | Msg_NotJsonFile string
  | Msg_Banner
  | Msg_Guide
  | Msg_Separator
  | Msg_Completed
  | Msg_Next
  | Msg_Cancelled

record world =
  files :: "string \<rightharpoonup> content"
  out :: "msg list"

definition say :: "msg list \<Rightarrow> world \<Rightarrow> world" where
  "say ms w = w\<lparr>out := out w @ ms\<rparr>"

definition write_json :: "string \<Rightarrow> json \<Rightarrow> world \<Rightarrow> world" where
  "write_json p v w = w\<lparr>files := (files w)(p \<mapsto> Doc v)\<rparr>"

text \<open>\<^verbatim>\<open>with open(p) as f: json.load(f)\<close>.\<close>

definition load_json :: "world \<Rightarrow> string \<Rightarrow> error + json" where
  "load_json w p =
     (case files w p of
        None \<Rightarrow> Inl FileNotFoundError
      | Some Malformed \<Rightarrow> Inl JSONDecodeError
      | Some (Doc v) \<Rightarrow> Inr v)"

text \<open>An uncaught exception ends the interpreter with status 1; \<^verbatim>\<open>sys.exit(n)\<close> with
  \<open>n\<close>; falling off the end of the script with 0.\<close>

fun exit_status :: "error + int \<Rightarrow> int" where
  "exit_status (Inl e) = 1"
| "exit_status (Inr n) = n"

section \<open>Tile Expander (expand\_tilemap.py)\<close>

text \<open>Lines 17--21: the first entry whose element 0 equals 315 ends the search; its
  element 1 is the tilemap data. The position of the entry is kept, to write the
  updated data back where the script mutates it in place.\<close>

fun find_tilemap_entity :: "json list \<Rightarrow> nat \<Rightarrow> error + (nat \<times> json) option" where
  "find_tilemap_entity [] k = Inr None"
| "find_tilemap_entity (tilemap_data # rest) k =
     (case py_getitem tilemap_data 0 of
        Inl e \<Rightarrow> Inl e
      | Inr i \<Rightarrow>
          if py_eq_int i 315
          then (case py_getitem tilemap_data 1 of
                  Inl e \<Rightarrow> Inl e
                | Inr tilemap_entity \<Rightarrow> Inr (Some (k, tilemap_entity)))
          else find_tilemap_entity rest (Suc k))"

text \<open>Lines 38--45: the body of the inner loop.\<close>

definition source_tile :: "json \<Rightarrow> int \<Rightarrow> int \<Rightarrow> int \<Rightarrow> int \<Rightarrow> error + json" where
  "source_tile existing_tiles old_width old_height x y =
     (if old_width = 0 then Inl ZeroDivisionError
      else if old_height = 0 then Inl ZeroDivisionError
      else
        let orig_x = x mod old_width;
            orig_y = y mod old_height;
            orig_index = orig_y * old_width + orig_x
        in case py_getitem existing_tiles orig_index of
             Inl e \<Rightarrow> Inl e
           | Inr original_tile \<Rightarrow> py_copy original_tile)"

text \<open>Line 37: \<^verbatim>\<open>for x in range(new_width)\<close>, appending to \<open>new_tiles\<close>.\<close>

fun row_loop :: "json \<Rightarrow> int \<Rightarrow> int \<Rightarrow> int \<Rightarrow> int list \<Rightarrow> json list \<Rightarrow> error + json list" where
  "row_loop existing_tiles old_width old_height y [] new_tiles = Inr new_tiles"
| "row_loop existing_tiles old_width old_height y (x # xs) new_tiles =
     (case source_tile existing_tiles old_width old_height x y of
        Inl e \<Rightarrow> Inl e
      | Inr t \<Rightarrow> row_loop existing_tiles old_width old_height y xs (new_tiles @ [t]))"

text \<open>Line 36: \<^verbatim>\<open>for y in range(new_height)\<close>.\<close>

fun grid_loop :: "json \<Rightarrow> int \<Rightarrow> int \<Rightarrow> int \<Rightarrow> int list \<Rightarrow> json list \<Rightarrow> error + json list" where
  "grid_loop existing_tiles old_width old_height new_width [] new_tiles = Inr new_tiles"
| "grid_loop existing_tiles old_width old_height new_width (y # ys) new_tiles =
     (case row_loop existing_tiles old_width old_height y (py_range new_width) new_tiles of
        Inl e \<Rightarrow> Inl e
      | Inr acc \<Rightarrow> grid_loop existing_tiles old_width old_height new_width ys acc)"

text \<open>Lines 48--50: three item assignments on the tilemap data; a key that is present
  keeps its place, a new key goes to the end.\<close>

definition update_tilemap :: "(string \<times> json) list \<Rightarrow> json list \<Rightarrow> int \<Rightarrow> int \<Rightarrow> (string \<times> json) list" where
  "update_tilemap tm new_tiles new_width new_height =
     AList.update ''height'' (JInt new_height)
       (AList.update ''width'' (JInt new_width)
          (AList.update ''tiles'' (JList new_tiles) tm))"

text \<open>The document after the in-place update of element 1 of entry \<open>k\<close> of the
  \<^verbatim>\<open>tilemaps\<close> section. A match can only come from a list section holding a list entry:
  what iterating a string or a mapping yields are strings, whose element 0 is a
  string and never equals 315.\<close>

definition put_tilemap_entity :: "(string \<times> json) list \<Rightarrow> nat \<Rightarrow> json \<Rightarrow> (string \<times> json) list" where
  "put_tilemap_entity scene k v =
     (case map_of scene ''tilemaps'' of
        Some (JList tms) \<Rightarrow>
          (case tms ! k of
             JList es \<Rightarrow> AList.update ''tilemaps'' (JList (tms[k := JList (es[1 := v])])) scene
           | _ \<Rightarrow> scene)
      | _ \<Rightarrow> scene)"

definition expand_tilemap ::
  "string \<Rightarrow> int \<Rightarrow> int \<Rightarrow> int \<Rightarrow> int \<Rightarrow> world \<Rightarrow> (error + bool) \<times> world" where
  "expand_tilemap scene_file old_width old_height new_width new_height w =
     (case load_json w scene_file of
        Inl e \<Rightarrow> (Inl e, w)
      | Inr (JDict scene) \<Rightarrow>
          (case py_iter (dict_get scene ''tilemaps'' (JList [])) of
             Inl e \<Rightarrow> (Inl e, w)
           | Inr entries \<Rightarrow>
               (case find_tilemap_entity entries 0 of
                  Inl e \<Rightarrow> (Inl e, w)
                | Inr None \<Rightarrow> (Inr False, say [Msg_NotFound] w)
                | Inr (Some (k, tilemap_entity)) \<Rightarrow>
                    if \<not> truthy tilemap_entity then (Inr False, say [Msg_NotFound] w)
                    else
                      (case tilemap_entity of
                         JDict tm \<Rightarrow>
                           (let existing_tiles = dict_get tm ''tiles'' (JList []) in
                            case py_len existing_tiles of
                              Inl e \<Rightarrow> (Inl e, w)
                            | Inr n \<Rightarrow>
                                if int n \<noteq> old_width * old_height
                                then (Inr False, say [Msg_Expected (old_width * old_height) n] w)
                                else
                                  (case grid_loop existing_tiles old_width old_height new_width
                                          (py_range new_height) [] of
                                     Inl e \<Rightarrow> (Inl e, w)
                                   | Inr new_tiles \<Rightarrow>
                                       (Inr True,
                                        write_json scene_file
                                          (JDict (put_tilemap_entity scene k
                                             (JDict (update_tilemap tm new_tiles new_width new_height))))
                                          (say [Msg_Expanded old_width old_height new_width new_height,
                                                Msg_TileCount n (length new_tiles)] w))))
                       | _ \<Rightarrow> (Inl AttributeError, w))))
      | Inr _ \<Rightarrow> (Inl AttributeError, w))"

text \<open>Lines 61--68: the script body, with the fixed path and the default dimensions.\<close>

definition scene_file :: string where
  "scene_file = ''projects/Celeste Demo/scenes/main.json''"

definition expand_main :: "world \<Rightarrow> (error + int) \<times> world" where
  "expand_main w =
     (case expand_tilemap scene_file 10 10 20 20 w of
        (Inl e, w') \<Rightarrow> (Inl e, w')
      | (Inr True, w') \<Rightarrow> (Inr 0, say [Msg_Success] w')
      | (Inr False, w') \<Rightarrow> (Inr 1, say [Msg_Failed] w'))"

section \<open>Collider Cleaner (cleanup\_colliders.py)\<close>

subsection \<open>Library operations the script uses\<close>

text \<open>A value that can be a member of a \<^verbatim>\<open>set\<close>: lists and mappings are unhashable.\<close>

fun hashable :: "json \<Rightarrow> bool" where
  "hashable (JList xs) = False"
| "hashable (JDict d) = False"
| "hashable v = True"

text \<open>Equality of two hashable values: numbers (booleans among them) by value,
  strings and \<^verbatim>\<open>None\<close> by identity of value.\<close>

definition py_eq_key :: "json \<Rightarrow> json \<Rightarrow> bool" where
  "py_eq_key a b =
     (case (num_val a, num_val b) of
        (Some x, Some y) \<Rightarrow> x = y
      | (None, None) \<Rightarrow> a = b
      | _ \<Rightarrow> False)"

text \<open>The set \<open>collider_entities\<close> is the list of its members in order of arrival.\<close>

definition py_in :: "json \<Rightarrow> json list \<Rightarrow> bool" where
  "py_in v ids = list_ex (py_eq_key v) ids"

definition set_add :: "json \<Rightarrow> json list \<Rightarrow> json list" where
  "set_add v ids = (if py_in v ids then ids else ids @ [v])"

text \<open>\<^verbatim>\<open>pathlib\<close>: the name is the last component of a (normalised) path, its suffix
  starts at the last dot of the name unless that dot is the first or the last
  character; \<^verbatim>\<open>with_suffix\<close> replaces the suffix, or appends when there is none.\<close>

definition path_name :: "string \<Rightarrow> string" where
  "path_name p = rev (takeWhile (\<lambda>c. c \<noteq> CHR ''/'') (rev p))"

definition path_suffix :: "string \<Rightarrow> string" where
  "path_suffix p =
     (let name = path_name p;
          ext = rev (takeWhile (\<lambda>c. c \<noteq> CHR ''.'') (rev name))
      in if CHR ''.'' \<in> set name \<and> ext \<noteq> [] \<and> Suc (length ext) < length name
         then CHR ''.'' # ext else [])"

definition with_suffix :: "string \<Rightarrow> string \<Rightarrow> error + string" where
  "with_suffix p s =
     (if path_name p = [] then Inl ValueError
      else Inr (take (length p - length (path_suffix p)) p @ s))"

text \<open>\<^verbatim>\<open>str.strip()\<close> and \<^verbatim>\<open>str.lower()\<close> on the operator's answer, taken as a string of
  Latin-1 characters.\<close>

definition py_isspace :: "char \<Rightarrow> bool" where
  "py_isspace c =
     (let n = (of_char c :: nat)
      in (9 \<le> n \<and> n \<le> 13) \<or> (28 \<le> n \<and> n \<le> 32) \<or> n = 133 \<or> n = 160)"

definition py_strip :: "string \<Rightarrow> string" where
  "py_strip s = rev (dropWhile py_isspace (rev (dropWhile py_isspace s)))"

definition lower_char :: "char \<Rightarrow> char" where
  "lower_char c =
     (let n = (of_char c :: nat)
      in if (65 \<le> n \<and> n \<le> 90) \<or> (192 \<le> n \<and> n \<le> 222 \<and> n \<noteq> 215)
         then char_of (n + 32) else c)"

definition py_lower :: "string \<Rightarrow> string" where
  "py_lower s = map lower_char s"

subsection \<open>cleanup\_scene\_colliders\<close>

text \<open>Lines 29--30.\<close>

definition is_collider_name :: "string \<Rightarrow> bool" where
  "is_collider_name entity_name =
     (prefix ''CompositeCollider'' entity_name \<or> prefix ''Collider_'' entity_name)"

text \<open>Lines 24--32: the loop over the entries of the \<^verbatim>\<open>names\<close> section. \<open>printed\<close>
  collects the lines the loop prints; they are returned also when an entry raises.\<close>

fun scan_names :: "json list \<Rightarrow> json list \<Rightarrow> msg list \<Rightarrow> (error + json list) \<times> msg list" where
  "scan_names [] collider_entities printed = (Inr collider_entities, printed)"
| "scan_names (name_entry # rest) collider_entities printed =
     (case py_getitem name_entry 0 of
        Inl e \<Rightarrow> (Inl e, printed)
      | Inr entity_id \<Rightarrow>
          (case py_getitem name_entry 1 of
             Inl e \<Rightarrow> (Inl e, printed)
           | Inr (JStr entity_name) \<Rightarrow>
               if is_collider_name entity_name
               then (if hashable entity_id
                     then scan_names rest (set_add entity_id collider_entities)
                            (printed @ [Msg_Found entity_id entity_name])
                     else (Inl TypeError, printed))
               else scan_names rest collider_entities printed
           | Inr _ \<Rightarrow> (Inl AttributeError, printed)))"

text \<open>Lines 21--32, from \<^verbatim>\<open>'names' in scene_data\<close> on. On a list the test is membership
  and on a string it is containment; indexing either with \<^verbatim>\<open>'names'\<close> then fails.\<close>

fun find_colliders :: "json \<Rightarrow> (error + json list) \<times> msg list" where
  "find_colliders (JDict scene_data) =
     (case map_of scene_data ''names'' of
        None \<Rightarrow> (Inr [], [])
      | Some names \<Rightarrow>
          (case py_iter names of
             Inl e \<Rightarrow> (Inl e, [])
           | Inr entries \<Rightarrow> scan_names entries [] []))"
| "find_colliders (JList xs) =
     (if JStr ''names'' \<in> set xs then (Inl TypeError, []) else (Inr [], []))"
| "find_colliders (JStr s) =
     (if sublist ''names'' s then (Inl TypeError, []) else (Inr [], []))"
| "find_colliders v = (Inl TypeError, [])"

text \<open>Lines 48--55: the loop that builds \<open>filtered_data\<close>.\<close>

fun filter_entries :: "json list \<Rightarrow> json list \<Rightarrow> json list \<Rightarrow> error + json list" where
  "filter_entries collider_entities [] filtered_data = Inr filtered_data"
| "filter_entries collider_entities (JList (entity_id # payload) # rest) filtered_data =
     (if \<not> hashable entity_id then Inl TypeError
      else if \<not> py_in entity_id collider_entities
      then filter_entries collider_entities rest (filtered_data @ [JList (entity_id # payload)])
      else filter_entries collider_entities rest filtered_data)"
| "filter_entries collider_entities (entry # rest) filtered_data =
     filter_entries collider_entities rest (filtered_data @ [entry])"

text \<open>Lines 43--62: the loop over \<^verbatim>\<open>scene_data.items()\<close>. Assigning to a key that is
  present changes no other item, so the items still to come are those of the
  document as loaded.\<close>

fun clean_sections ::
  "json list \<Rightarrow> (string \<times> json) list \<Rightarrow> (string \<times> json) list \<Rightarrow> nat \<Rightarrow> msg list
     \<Rightarrow> (error + (string \<times> json) list \<times> nat) \<times> msg list" where
  "clean_sections collider_entities [] scene_data sections_cleaned printed =
     (Inr (scene_data, sections_cleaned), printed)"
| "clean_sections collider_entities ((section_name, JList section_data) # items)
       scene_data sections_cleaned printed =
     (case filter_entries collider_entities section_data [] of
        Inl e \<Rightarrow> (Inl e, printed)
      | Inr filtered_data \<Rightarrow>
          if length filtered_data \<noteq> length section_data
          then clean_sections collider_entities items
                 (AList.update section_name (JList filtered_data) scene_data)
                 (Suc sections_cleaned)
                 (printed @ [Msg_Cleaned section_name (length section_data - length filtered_data)])
          else clean_sections collider_entities items scene_data sections_cleaned printed)"
| "clean_sections collider_entities (item # items) scene_data sections_cleaned printed =
     clean_sections collider_entities items scene_data sections_cleaned printed"

definition cleanup_scene_colliders :: "string \<Rightarrow> world \<Rightarrow> (error + unit) \<times> world" where
  "cleanup_scene_colliders scene_path w =
     (let w0 = say [Msg_Cleaning scene_path] w in
      case load_json w0 scene_path of
        Inl e \<Rightarrow> (Inl e, w0)
      | Inr scene_data \<Rightarrow>
          (case find_colliders scene_data of
             (Inl e, found) \<Rightarrow> (Inl e, say found w0)
           | (Inr collider_entities, found) \<Rightarrow>
               (let w1 = say (found @ [Msg_Total (length collider_entities)]) w0 in
                if collider_entities = [] then (Inr (), say [Msg_NoColliders] w1)
                else
                  (case scene_data of
                     JDict d \<Rightarrow>
                       (case clean_sections collider_entities d d 0 [] of
                          (Inl e, cleaned_msgs) \<Rightarrow> (Inl e, say cleaned_msgs w1)
                        | (Inr (cleaned, sections_cleaned), cleaned_msgs) \<Rightarrow>
                            (case with_suffix scene_path ''.json.backup'' of
                               Inl e \<Rightarrow> (Inl e, say cleaned_msgs w1)
                             | Inr backup_path \<Rightarrow>
                                 (Inr (),
                                  say [Msg_Complete sections_cleaned,
                                       Msg_Removed (length collider_entities)]
                                    (write_json scene_path (JDict cleaned)
                                       (say [Msg_Backup backup_path]
                                          (write_json backup_path (JDict cleaned)
                                             (say cleaned_msgs w1)))))))
                   | _ \<Rightarrow> (Inl AttributeError, w1)))))"

text \<open>Lines 122--153. \<open>argv\<close> is \<^verbatim>\<open>sys.argv\<close>, \<open>answer\<close> what the operator types at the
  prompt.\<close>

definition main :: "string list \<Rightarrow> string \<Rightarrow> world \<Rightarrow> (error + int) \<times> world" where
  "main argv answer w =
     (if length argv \<noteq> 2 then (Inr 1, say [Msg_Usage] w)
      else
        let scene_path = argv ! 1 in
        if files w scene_path = None then (Inr 1, say [Msg_SceneMissing scene_path] w)
        else if \<not> path_suffix scene_path = ''.json''
        then (Inr 1, say [Msg_NotJsonFile scene_path] w)
        else
          let w1 = say [Msg_Banner, Msg_Guide, Msg_Separator] w;
              response = py_lower (py_strip answer)
          in if response \<in> set [''y'', ''yes'']
             then (case cleanup_scene_colliders scene_path w1 of
                     (Inl e, w2) \<Rightarrow> (Inl e, w2)
                   | (Inr u, w2) \<Rightarrow> (Inr 0, say [Msg_Completed, Msg_Next] w2))
             else (Inr 0, say [Msg_Cancelled] w1))"

section \<open>Example scenes\<close>

text \<open>The scene of the specification's example: entity 1 is a collider, entity 2 is
  not.\<close>

definition example_scene :: json where
  "example_scene =
     JDict [(''names'', JList [JList [JInt 1, JStr ''CompositeCollider_A''],
                               JList [JInt 2, JStr ''Player'']]),
            (''bodies'', JList [JList [JInt 1, JDict [(''mass'', JInt 5)]],
                                JList [JInt 2, JDict [(''mass'', JInt 7)]]]),
            (''version'', JInt 3)]"

definition example_world :: world where
  "example_world = \<lparr>files = [''scenes/main.json'' \<mapsto> Doc example_scene], out = []\<rparr>"

text \<open>A scene without collider entities.\<close>

definition plain_scene :: json where
  "plain_scene =
     JDict [(''names'', JList [JList [JInt 2, JStr ''Player''], JList [JInt 3, JStr ''Grid'']]),
            (''bodies'', JList [JList [JInt 2, JDict [(''mass'', JInt 7)]]])]"

definition plain_world :: world where
  "plain_world = \<lparr>files = [''scenes/main.json'' \<mapsto> Doc plain_scene], out = []\<rparr>"

text \<open>Scenes at the path the expander script reads: a 2 by 1 tilemap with identifier
  315 behind another tilemap; a tilemap 315 whose data is an empty mapping; and a
  scene without tilemap 315.\<close>

definition small_tilemap_scene :: json where
  "small_tilemap_scene =
     JDict [(''tilemaps'',
             JList [JList [JInt 7, JDict [(''tiles'', JList []), (''width'', JInt 0), (''height'', JInt 0)]],
                    JList [JInt 315,
                           JDict [(''width'', JInt 2),
                                  (''tiles'', JList [JDict [(''id'', JInt 0)], JDict [(''id'', JInt 1)]]),
                                  (''name'', JStr ''ground''),
                                  (''height'', JInt 1)]]]),
            (''names'', JList [JList [JInt 315, JStr ''Grid'']])]"

definition small_tilemap_world :: world where
  "small_tilemap_world = \<lparr>files = [scene_file \<mapsto> Doc small_tilemap_scene], out = []\<rparr>"

definition empty_tilemap_scene :: json where
  "empty_tilemap_scene =
     JDict [(''tilemaps'', JList [JList [JInt 7, JDict [(''tiles'', JList [])]],
                                  JList [JInt 315, JDict []]])]"

definition empty_tilemap_world :: world where
  "empty_tilemap_world = \<lparr>files = [scene_file \<mapsto> Doc empty_tilemap_scene], out = []\<rparr>"

definition other_tilemap_scene :: json where
  "other_tilemap_scene =
     JDict [(''tilemaps'', JList [JList [JInt 7, JDict [(''tiles'', JList [])]]])]"

definition other_tilemap_world :: world where
  "other_tilemap_world = \<lparr>files = [scene_file \<mapsto> Doc other_tilemap_scene], out = []\<rparr>"

text \<open>A scene with a 10 by 10 tilemap of 100 tile records, at the path the expander
  script reads.\<close>

definition grid_tiles :: "json list" where
  "grid_tiles = map (\<lambda>i. JDict [(''id'', JInt (int i))]) [0..<100]"

definition grid_scene :: json where
  "grid_scene =
     JDict [(''tilemaps'',
             JList [JList [JInt 315,
                           JDict [(''tiles'', JList grid_tiles),
                                  (''width'', JInt 10),
                                  (''height'', JInt 10)]]])]"

definition grid_world :: world where
  "grid_world = \<lparr>files = [scene_file \<mapsto> Doc grid_scene], out = []\<rparr>"

section \<open>The tile list the expander works on\<close>

text \<open>What the expander would work on in the scene file \<open>p\<close>: the tile list of the
  tilemap it locates, when the scene is a mapping with a list of tilemap entries,
  the search finds a mapping and its \<^verbatim>\<open>tiles\<close> field is a list.\<close>

definition tilemap_tiles :: "world \<Rightarrow> string \<Rightarrow> json list option" where
  "tilemap_tiles w p =
     (case files w p of
        Some (Doc (JDict scene)) \<Rightarrow>
          (case map_of scene ''tilemaps'' of
             Some (JList entries) \<Rightarrow>
               (case find_tilemap_entity entries 0 of
                  Inr (Some (k, JDict tm)) \<Rightarrow>
                    (case map_of tm ''tiles'' of Some (JList tiles) \<Rightarrow> Some tiles | _ \<Rightarrow> None)
                | _ \<Rightarrow> None)
           | _ \<Rightarrow> None)
      | _ \<Rightarrow> None)"

section \<open>The cleaning as the specification words it\<close>

text \<open>An entry of a section is retained when it is not a list, when it is an empty
  list, or when it is a list whose first element is not in the identified set.\<close>

definition retained :: "json list \<Rightarrow> json \<Rightarrow> bool" where
  "retained ids entry =
     (case entry of JList (entity_id # payload) \<Rightarrow> \<not> py_in entity_id ids | _ \<Rightarrow> True)"

text \<open>A section whose value is a list keeps exactly its retained entries, in their
  order; a section with any other value is kept as it is.\<close>

definition cleaned_section :: "json list \<Rightarrow> json \<Rightarrow> json" where
  "cleaned_section ids v =
     (case v of JList entries \<Rightarrow> JList (filter (retained ids) entries) | _ \<Rightarrow> v)"

text \<open>The first element of a list entry can be looked up in a set.\<close>

definition entry_id_hashable :: "json \<Rightarrow> bool" where
  "entry_id_hashable entry =
     (case entry of JList (entity_id # payload) \<Rightarrow> hashable entity_id | _ \<Rightarrow> True)"


section \<open>Properties\<close>

subsection \<open>Console and files\<close>

lemma say_simps [simp]: "files (say ms w) = files w" "out (say ms w) = out w @ ms"
  by (simp_all add: say_def)

lemma write_json_simps [simp]:
  "files (write_json p v w) = (files w)(p \<mapsto> Doc v)" "out (write_json p v w) = out w"
  by (simp_all add: write_json_def)

lemma load_json_say [simp]: "load_json (say ms w) p = load_json w p"
  by (simp add: load_json_def)

subsection \<open>Collider Cleaner: confirmation\<close>

text \<open>
  Claim C8. Whatever the operator types, if the answer stripped of surrounding
  whitespace and lowercased is neither \<^verbatim>\<open>y\<close> nor \<^verbatim>\<open>yes\<close>, \<open>main\<close> changes no file; and
  when the prompt was reached (one argument, naming an existing file with suffix
  \<^verbatim>\<open>.json\<close>) the run ends with exit status 0 after printing that the cleanup was
  cancelled. So a run that changes a file had \<^verbatim>\<open>y\<close> or \<^verbatim>\<open>yes\<close> as its answer.
\<close>

theorem main_declined:
  assumes "py_lower (py_strip answer) \<noteq> ''y''" and "py_lower (py_strip answer) \<noteq> ''yes''"
  shows "files (snd (main argv answer w)) = files w
       \<and> (length argv = 2 \<and> files w (argv ! 1) \<noteq> None \<and> path_suffix (argv ! 1) = ''.json''
            \<longrightarrow> exit_status (fst (main argv answer w)) = 0
              \<and> out (snd (main argv answer w))
                  = out w @ [Msg_Banner, Msg_Guide, Msg_Separator, Msg_Cancelled])"
  using assms by (simp add: main_def Let_def)

theorem main_declined_witness:
  "py_lower (py_strip '' No  '') \<noteq> ''y'' \<and> py_lower (py_strip '' No  '') \<noteq> ''yes''
   \<and> length [''cleanup_colliders.py'', ''scenes/main.json''] = 2
   \<and> files example_world ([''cleanup_colliders.py'', ''scenes/main.json''] ! 1) \<noteq> None
   \<and> path_suffix ([''cleanup_colliders.py'', ''scenes/main.json''] ! 1) = ''.json''
   \<and> files (snd (main [''cleanup_colliders.py'', ''scenes/main.json''] '' No  '' example_world))
       = files example_world
   \<and> exit_status (fst (main [''cleanup_colliders.py'', ''scenes/main.json''] '' No  '' example_world)) = 0"
proof -
  have a: "py_lower (py_strip '' No  '') \<noteq> ''y''" by code_simp
  have b: "py_lower (py_strip '' No  '') \<noteq> ''yes''" by code_simp
  have c: "path_suffix ''scenes/main.json'' = ''.json''" by code_simp
  have d: "files example_world ''scenes/main.json'' \<noteq> None" by (simp add: example_world_def)
  from main_declined [OF a b, of "[''cleanup_colliders.py'', ''scenes/main.json'']" example_world] a b c d
  show ?thesis by simp
qed

subsection \<open>Collider Cleaner: nothing to clean\<close>

lemma scan_names_no_match:
  "\<forall>e\<in>set entries. \<exists>i n. py_getitem e 0 = Inr i \<and> py_getitem e 1 = Inr (JStr n)
      \<and> \<not> is_collider_name n
   \<Longrightarrow> scan_names entries ids printed = (Inr ids, printed)"
  by (induction entries) auto

text \<open>
  Claim C7. When the scene is a mapping whose \<^verbatim>\<open>names\<close> section (if there is one) holds
  only entries with an identifier and a name string, and no name starts with
  \<^verbatim>\<open>CompositeCollider\<close> or \<^verbatim>\<open>Collider_\<close>, \<open>cleanup_scene_colliders\<close> returns normally,
  prints that zero collider entities were found and that there is nothing to clean,
  and leaves every file as it was: neither the scene nor a backup is written.
\<close>

theorem cleanup_no_colliders:
  assumes "files w scene_path = Some (Doc (JDict d))"
      and "py_iter (dict_get d ''names'' (JList [])) = Inr entries"
      and "\<forall>e\<in>set entries. \<exists>i n. py_getitem e 0 = Inr i \<and> py_getitem e 1 = Inr (JStr n)
             \<and> \<not> is_collider_name n"
  shows "fst (cleanup_scene_colliders scene_path w) = Inr ()
       \<and> files (snd (cleanup_scene_colliders scene_path w)) = files w
       \<and> out (snd (cleanup_scene_colliders scene_path w))
           = out w @ [Msg_Cleaning scene_path, Msg_Total 0, Msg_NoColliders]"
proof -
  have "find_colliders (JDict d) = (Inr [], [])"
  proof (cases "map_of d ''names''")
    case None
    then show ?thesis by simp
  next
    case (Some names)
    with assms(2) have "py_iter names = Inr entries" by (simp add: dict_get_def)
    with Some scan_names_no_match [OF assms(3)] show ?thesis by simp
  qed
  with assms(1) show ?thesis
    by (simp add: cleanup_scene_colliders_def Let_def load_json_def)
qed

theorem cleanup_no_colliders_witness:
  "files plain_world ''scenes/main.json'' = Some (Doc plain_scene)
   \<and> fst (cleanup_scene_colliders ''scenes/main.json'' plain_world) = Inr ()
   \<and> files (snd (cleanup_scene_colliders ''scenes/main.json'' plain_world)) = files plain_world
   \<and> out (snd (cleanup_scene_colliders ''scenes/main.json'' plain_world))
       = [Msg_Cleaning ''scenes/main.json'', Msg_Total 0, Msg_NoColliders]"
proof -
  let ?d = "[(''names'', JList [JList [JInt 2, JStr ''Player''], JList [JInt 3, JStr ''Grid'']]),
            (''bodies'', JList [JList [JInt 2, JDict [(''mass'', JInt 7)]]])]"
  let ?entries = "[JList [JInt 2, JStr ''Player''], JList [JInt 3, JStr ''Grid'']]"
  have a: "files plain_world ''scenes/main.json'' = Some (Doc (JDict ?d))"
    by (simp add: plain_world_def plain_scene_def)
  have b: "py_iter (dict_get ?d ''names'' (JList [])) = Inr ?entries"
    by (simp add: dict_get_def)
  have c: "\<forall>e\<in>set ?entries. \<exists>i n. py_getitem e 0 = Inr i \<and> py_getitem e 1 = Inr (JStr n)
             \<and> \<not> is_collider_name n"
    by (simp add: seq_getitem_def is_collider_name_def)
  from cleanup_no_colliders [OF a b c] a show ?thesis
    by (simp add: plain_world_def plain_scene_def)
qed

subsection \<open>Collider Cleaner: the backup file\<close>

text \<open>
  Claim C1 asks that the backup hold the scene as it was before the cleanup. The
  script filters \<open>scene_data\<close> in place and only then dumps it to the backup path, so
  the backup is the cleaned scene. On the example scene: the backup written at
  \<^verbatim>\<open>scenes/main.json.backup\<close> has lost the entries of entity 1 and differs from the
  scene that was loaded.
\<close>

theorem backup_is_cleaned_scene:
  "files (snd (cleanup_scene_colliders ''scenes/main.json'' example_world)) ''scenes/main.json.backup''
     = Some (Doc (JDict [(''names'', JList [JList [JInt 2, JStr ''Player'']]),
                         (''bodies'', JList [JList [JInt 2, JDict [(''mass'', JInt 7)]]]),
                         (''version'', JInt 3)]))
   \<and> files (snd (cleanup_scene_colliders ''scenes/main.json'' example_world)) ''scenes/main.json.backup''
     \<noteq> files example_world ''scenes/main.json''"
  by (simp add: cleanup_scene_colliders_def example_world_def example_scene_def Let_def load_json_def
      seq_getitem_def is_collider_name_def set_add_def py_in_def py_eq_key_def with_suffix_def
      path_name_def path_suffix_def)

subsection \<open>Tile Expander: locating the tilemap, failing\<close>

lemma find_tilemap_entity_none:
  "\<forall>e\<in>set entries. \<exists>j. py_getitem e 0 = Inr j \<and> \<not> py_eq_int j 315
   \<Longrightarrow> find_tilemap_entity entries k0 = Inr None"
  by (induction entries arbitrary: k0) auto

lemma find_tilemap_entity_hit:
  assumes "\<forall>e\<in>set pre. \<exists>j. py_getitem e 0 = Inr j \<and> \<not> py_eq_int j 315"
      and "py_getitem e 0 = Inr i" and "py_eq_int i 315" and "py_getitem e 1 = Inr v"
  shows "find_tilemap_entity (pre @ e # post) k0 = Inr (Some (k0 + length pre, v))"
  using assms by (induction pre arbitrary: k0) auto

lemma find_tilemap_entity_split:
  "find_tilemap_entity entries k0 = Inr (Some (k, v))
   \<Longrightarrow> \<exists>pre e post i. entries = pre @ e # post \<and> k = k0 + length pre
         \<and> (\<forall>e'\<in>set pre. \<exists>j. py_getitem e' 0 = Inr j \<and> \<not> py_eq_int j 315)
         \<and> py_getitem e 0 = Inr i \<and> py_eq_int i 315 \<and> py_getitem e 1 = Inr v"
proof (induction entries arbitrary: k0)
  case Nil
  then show ?case by simp
next
  case (Cons a entries)
  show ?case
  proof (cases "py_getitem a 0")
    case (Inl err)
    with Cons.prems show ?thesis by simp
  next
    case (Inr j)
    show ?thesis
    proof (cases "py_eq_int j 315")
      case True
      with Inr Cons.prems have "py_getitem a 1 = Inr v" "k = k0"
        by (auto split: sum.splits)
      with Inr True have "a # entries = [] @ a # entries \<and> k = k0 + length ([]::json list)
         \<and> (\<forall>e'\<in>set ([]::json list). \<exists>j. py_getitem e' 0 = Inr j \<and> \<not> py_eq_int j 315)
         \<and> py_getitem a 0 = Inr j \<and> py_eq_int j 315 \<and> py_getitem a 1 = Inr v"
        by simp
      then show ?thesis by blast
    next
      case False
      with Inr Cons.prems have "find_tilemap_entity entries (Suc k0) = Inr (Some (k, v))"
        by simp
      from Cons.IH [OF this] obtain pre e post i where
        h: "entries = pre @ e # post" "k = Suc k0 + length pre"
           "\<forall>e'\<in>set pre. \<exists>j. py_getitem e' 0 = Inr j \<and> \<not> py_eq_int j 315"
           "py_getitem e 0 = Inr i" "py_eq_int i 315" "py_getitem e 1 = Inr v"
        by blast
      with Inr False have "a # entries = (a # pre) @ e # post \<and> k = k0 + length (a # pre)
         \<and> (\<forall>e'\<in>set (a # pre). \<exists>j. py_getitem e' 0 = Inr j \<and> \<not> py_eq_int j 315)
         \<and> py_getitem e 0 = Inr i \<and> py_eq_int i 315 \<and> py_getitem e 1 = Inr v"
        by simp
      then show ?thesis by blast
    qed
  qed
qed

lemma expand_main_of_False:
  assumes "fst (expand_tilemap scene_file 10 10 20 20 w) = Inr False"
  shows "fst (expand_main w) = Inr 1"
    and "files (snd (expand_main w)) = files (snd (expand_tilemap scene_file 10 10 20 20 w))"
    and "out (snd (expand_main w)) = out (snd (expand_tilemap scene_file 10 10 20 20 w)) @ [Msg_Failed]"
  using assms by (cases "expand_tilemap scene_file 10 10 20 20 w"; simp add: expand_main_def)+

text \<open>
  Claim C10. When the \<^verbatim>\<open>tilemaps\<close> section is a list in which the first entry with
  identifier 315 carries falsy data (an empty mapping, \<^verbatim>\<open>None\<close>, 0, an empty list or
  string, \<^verbatim>\<open>False\<close>), \<open>expand_tilemap\<close> prints that tilemap entity 315 was not found and
  returns \<^verbatim>\<open>False\<close> without writing any file, although the entry exists; run as a
  script on the fixed scene path it then prints the failure line and exits with
  status 1.
\<close>

theorem expand_tilemap_falsy_data:
  assumes "files w p = Some (Doc (JDict scene))"
      and "map_of scene ''tilemaps'' = Some (JList (pre @ JList (i # data # rest) # post))"
      and "\<forall>e\<in>set pre. \<exists>j. py_getitem e 0 = Inr j \<and> \<not> py_eq_int j 315"
      and "py_eq_int i 315"
      and "\<not> truthy data"
  shows "fst (expand_tilemap p old_width old_height new_width new_height w) = Inr False
       \<and> files (snd (expand_tilemap p old_width old_height new_width new_height w)) = files w
       \<and> out (snd (expand_tilemap p old_width old_height new_width new_height w))
           = out w @ [Msg_NotFound]
       \<and> (p = scene_file \<longrightarrow>
            exit_status (fst (expand_main w)) = 1
          \<and> files (snd (expand_main w)) = files w
          \<and> out (snd (expand_main w)) = out w @ [Msg_NotFound, Msg_Failed])"
proof -
  have hit: "find_tilemap_entity (pre @ JList (i # data # rest) # post) 0
               = Inr (Some (0 + length pre, data))"
    by (rule find_tilemap_entity_hit [OF assms(3) _ assms(4)]) (simp_all add: seq_getitem_def)
  have r: "expand_tilemap p ow oh nw nh w = (Inr False, say [Msg_NotFound] w)" for ow oh nw nh
    using assms(1,2,5) hit
    by (simp add: expand_tilemap_def load_json_def dict_get_def)
  show ?thesis
  proof (cases "p = scene_file")
    case True
    with r [of 10 10 20 20]
    have "expand_tilemap scene_file 10 10 20 20 w = (Inr False, say [Msg_NotFound] w)"
      by simp
    with expand_main_of_False [of w] r show ?thesis by simp
  next
    case False
    with r show ?thesis by simp
  qed
qed

text \<open>
  Claim C6. For a scene mapping whose \<^verbatim>\<open>tilemaps\<close> section can be iterated: if no entry
  has identifier 315, or if the tilemap found has a number of tiles other than
  \<open>old_width * old_height\<close>, then \<open>expand_tilemap\<close> prints one error line \<open>m\<close> (entity
  not found, or expected and found counts), returns \<^verbatim>\<open>False\<close> and writes no file; the
  script, which runs it on the fixed path with 10 by 10 and 20 by 20, then prints the
  failure line and exits with status 1, every file untouched.
\<close>

theorem expand_tilemap_failure:
  assumes "files w p = Some (Doc (JDict scene))"
      and "py_iter (dict_get scene ''tilemaps'' (JList [])) = Inr entries"
      and "(\<forall>e\<in>set entries. \<exists>j. py_getitem e 0 = Inr j \<and> \<not> py_eq_int j 315) \<and> m = Msg_NotFound
         \<or> find_tilemap_entity entries 0 = Inr (Some (k, JDict tm))
           \<and> py_len (dict_get tm ''tiles'' (JList [])) = Inr n
           \<and> int n \<noteq> old_width * old_height
           \<and> m = (if tm = [] then Msg_NotFound else Msg_Expected (old_width * old_height) n)"
  shows "fst (expand_tilemap p old_width old_height new_width new_height w) = Inr False
       \<and> files (snd (expand_tilemap p old_width old_height new_width new_height w)) = files w
       \<and> out (snd (expand_tilemap p old_width old_height new_width new_height w)) = out w @ [m]
       \<and> (p = scene_file \<and> old_width = 10 \<and> old_height = 10 \<and> new_width = 20 \<and> new_height = 20
            \<longrightarrow> exit_status (fst (expand_main w)) = 1
              \<and> files (snd (expand_main w)) = files w
              \<and> out (snd (expand_main w)) = out w @ [m, Msg_Failed])"
proof -
  have r: "expand_tilemap p old_width old_height new_width new_height w = (Inr False, say [m] w)"
    using assms(3)
  proof
    assume a: "(\<forall>e\<in>set entries. \<exists>j. py_getitem e 0 = Inr j \<and> \<not> py_eq_int j 315) \<and> m = Msg_NotFound"
    then have "find_tilemap_entity entries 0 = Inr None"
      by (simp add: find_tilemap_entity_none)
    with a assms(1,2) show ?thesis
      by (simp add: expand_tilemap_def load_json_def)
  next
    assume b: "find_tilemap_entity entries 0 = Inr (Some (k, JDict tm))
           \<and> py_len (dict_get tm ''tiles'' (JList [])) = Inr n
           \<and> int n \<noteq> old_width * old_height
           \<and> m = (if tm = [] then Msg_NotFound else Msg_Expected (old_width * old_height) n)"
    with assms(1,2) show ?thesis
      by (simp add: expand_tilemap_def load_json_def)
  qed
  show ?thesis
    using expand_main_of_False [of w] r by auto
qed


theorem expand_tilemap_falsy_data_witness:
  "files empty_tilemap_world scene_file = Some (Doc empty_tilemap_scene)
   \<and> py_eq_int (JInt 315) 315 \<and> \<not> truthy (JDict [])
   \<and> fst (expand_tilemap scene_file 10 10 20 20 empty_tilemap_world) = Inr False
   \<and> files (snd (expand_tilemap scene_file 10 10 20 20 empty_tilemap_world)) = files empty_tilemap_world
   \<and> out (snd (expand_tilemap scene_file 10 10 20 20 empty_tilemap_world)) = [Msg_NotFound]
   \<and> exit_status (fst (expand_main empty_tilemap_world)) = 1
   \<and> files (snd (expand_main empty_tilemap_world)) = files empty_tilemap_world
   \<and> out (snd (expand_main empty_tilemap_world)) = [Msg_NotFound, Msg_Failed]"
proof -
  let ?scene = "[(''tilemaps'', JList [JList [JInt 7, JDict [(''tiles'', JList [])]],
                                  JList [JInt 315, JDict []]])]"
  have a: "files empty_tilemap_world scene_file = Some (Doc (JDict ?scene))"
    by (simp add: empty_tilemap_world_def empty_tilemap_scene_def)
  have b: "map_of ?scene ''tilemaps''
             = Some (JList ([JList [JInt 7, JDict [(''tiles'', JList [])]]]
                            @ JList (JInt 315 # JDict [] # []) # []))"
    by simp
  have c: "\<forall>e\<in>set [JList [JInt 7, JDict [(''tiles'', JList [])]]].
             \<exists>j. py_getitem e 0 = Inr j \<and> \<not> py_eq_int j 315"
    by (simp add: seq_getitem_def py_eq_int_def)
  have d: "py_eq_int (JInt 315) 315" by (simp add: py_eq_int_def)
  have e: "\<not> truthy (JDict [])" by simp
  from expand_tilemap_falsy_data [OF a b c d e, of 10 10 20 20] a d e show ?thesis
    by (simp add: empty_tilemap_world_def empty_tilemap_scene_def)
qed

theorem expand_tilemap_failure_witness:
  "files small_tilemap_world scene_file = Some (Doc small_tilemap_scene)
   \<and> fst (expand_tilemap scene_file 10 10 20 20 small_tilemap_world) = Inr False
   \<and> files (snd (expand_tilemap scene_file 10 10 20 20 small_tilemap_world)) = files small_tilemap_world
   \<and> out (snd (expand_tilemap scene_file 10 10 20 20 small_tilemap_world)) = [Msg_Expected 100 2]
   \<and> exit_status (fst (expand_main small_tilemap_world)) = 1
   \<and> files (snd (expand_main small_tilemap_world)) = files small_tilemap_world
   \<and> out (snd (expand_main small_tilemap_world)) = [Msg_Expected 100 2, Msg_Failed]
   \<and> fst (expand_tilemap scene_file 10 10 20 20 other_tilemap_world) = Inr False
   \<and> out (snd (expand_tilemap scene_file 10 10 20 20 other_tilemap_world)) = [Msg_NotFound]"
proof -
  let ?tm = "[(''width'', JInt 2),
              (''tiles'', JList [JDict [(''id'', JInt 0)], JDict [(''id'', JInt 1)]]),
              (''name'', JStr ''ground''),
              (''height'', JInt 1)]"
  let ?entries = "[JList [JInt 7, JDict [(''tiles'', JList []), (''width'', JInt 0), (''height'', JInt 0)]],
                   JList [JInt 315, JDict ?tm]]"
  let ?scene = "[(''tilemaps'', JList ?entries), (''names'', JList [JList [JInt 315, JStr ''Grid'']])]"
  have a: "files small_tilemap_world scene_file = Some (Doc (JDict ?scene))"
    by (simp add: small_tilemap_world_def small_tilemap_scene_def)
  have b: "py_iter (dict_get ?scene ''tilemaps'' (JList [])) = Inr ?entries"
    by (simp add: dict_get_def)
  have c: "(\<forall>e\<in>set ?entries. \<exists>j. py_getitem e 0 = Inr j \<and> \<not> py_eq_int j 315)
             \<and> Msg_Expected 100 2 = Msg_NotFound
         \<or> find_tilemap_entity ?entries 0 = Inr (Some (1, JDict ?tm))
           \<and> py_len (dict_get ?tm ''tiles'' (JList [])) = Inr 2
           \<and> int 2 \<noteq> 10 * 10
           \<and> Msg_Expected 100 2 = (if ?tm = [] then Msg_NotFound else Msg_Expected (10 * 10) 2)"
    by (simp add: seq_getitem_def py_eq_int_def dict_get_def)
  let ?others = "[JList [JInt 7, JDict [(''tiles'', JList [])]]]"
  have a': "files other_tilemap_world scene_file = Some (Doc (JDict [(''tilemaps'', JList ?others)]))"
    by (simp add: other_tilemap_world_def other_tilemap_scene_def)
  have b': "py_iter (dict_get [(''tilemaps'', JList ?others)] ''tilemaps'' (JList [])) = Inr ?others"
    by (simp add: dict_get_def)
  have c': "(\<forall>e\<in>set ?others. \<exists>j. py_getitem e 0 = Inr j \<and> \<not> py_eq_int j 315)
             \<and> Msg_NotFound = Msg_NotFound
         \<or> find_tilemap_entity ?others 0 = Inr (Some (0, JDict []))
           \<and> py_len (dict_get [] ''tiles'' (JList [])) = Inr 0
           \<and> int 0 \<noteq> 10 * 10
           \<and> Msg_NotFound = (if ([]::(string \<times> json) list) = [] then Msg_NotFound else Msg_Expected (10 * 10) 0)"
    by (simp add: seq_getitem_def py_eq_int_def)
  from expand_tilemap_failure [OF a b c, of 20 20] expand_tilemap_failure [OF a' b' c', of 20 20] a
  show ?thesis
    by (simp add: small_tilemap_world_def other_tilemap_world_def)
qed


subsection \<open>Tile Expander: the loops\<close>

lemma row_loop_Inr:
  "row_loop T ow oh y xs acc = Inr r
   \<longleftrightarrow> (\<forall>x\<in>set xs. \<exists>t. source_tile T ow oh x y = Inr t)
       \<and> r = acc @ map (\<lambda>x. projr (source_tile T ow oh x y)) xs"
proof (induction xs arbitrary: acc)
  case Nil
  show ?case by auto
next
  case (Cons x xs)
  show ?case
  proof (cases "source_tile T ow oh x y")
    case (Inl e)
    then show ?thesis by simp
  next
    case (Inr t)
    then show ?thesis by (simp add: Cons.IH)
  qed
qed

lemma grid_loop_Inr:
  "grid_loop T ow oh nw ys acc = Inr r
   \<longleftrightarrow> (\<forall>y\<in>set ys. \<forall>x\<in>set (py_range nw). \<exists>t. source_tile T ow oh x y = Inr t)
       \<and> r = acc @ concat (map (\<lambda>y. map (\<lambda>x. projr (source_tile T ow oh x y)) (py_range nw)) ys)"
proof (induction ys arbitrary: acc)
  case Nil
  show ?case by auto
next
  case (Cons y ys)
  show ?case
  proof (cases "row_loop T ow oh y (py_range nw) acc")
    case (Inl e)
    then have "\<not> (\<forall>x\<in>set (py_range nw). \<exists>t. source_tile T ow oh x y = Inr t)"
      using row_loop_Inr [of T ow oh y "py_range nw" acc] by auto
    with Inl show ?thesis by auto
  next
    case (Inr a)
    then have a: "(\<forall>x\<in>set (py_range nw). \<exists>t. source_tile T ow oh x y = Inr t)"
      "a = acc @ map (\<lambda>x. projr (source_tile T ow oh x y)) (py_range nw)"
      using row_loop_Inr [of T ow oh y "py_range nw" acc a] by auto
    show ?thesis using Inr a by (simp add: Cons.IH)
  qed
qed

lemma length_concat_rows:
  "length (concat (map (\<lambda>y. map (f y) [0..<W]) [0..<H])) = H * W"
  by (induction H) simp_all

lemma nth_concat_rows:
  "x < W \<Longrightarrow> y < H \<Longrightarrow> concat (map (\<lambda>y. map (f y) [0..<W]) [0..<H]) ! (y * W + x) = f y x"
proof (induction H)
  case 0
  then show ?case by simp
next
  case (Suc H)
  show ?case
  proof (cases "y < H")
    case True
    then have "y * W + x < H * W"
    proof -
      from True have "Suc y \<le> H" by simp
      then have "Suc y * W \<le> H * W" by (rule mult_le_mono1)
      with Suc.prems(1) show ?thesis by simp
    qed
    with True Suc show ?thesis
      by (simp add: nth_append length_concat_rows)
  next
    case False
    with Suc.prems have "y = H" by simp
    with Suc.prems show ?thesis
      by (simp add: nth_append length_concat_rows)
  qed
qed

lemma source_tile_getitem:
  "source_tile (JList tiles) ow oh x y = Inr t
   \<Longrightarrow> seq_getitem tiles ((y mod oh) * ow + x mod ow) = Inr t"
  by (cases "seq_getitem tiles ((y mod oh) * ow + x mod ow)")
     (auto simp: source_tile_def Let_def split: if_splits elim: py_copy.elims)

lemma tile_index_bounds:
  fixes ow oh x y :: int
  assumes "0 < ow" "0 < oh"
  shows "0 \<le> (y mod oh) * ow + x mod ow" and "(y mod oh) * ow + x mod ow < ow * oh"
proof -
  have a: "0 \<le> y mod oh" "y mod oh \<le> oh - 1" "0 \<le> x mod ow" "x mod ow < ow"
    using assms by simp_all
  then show "0 \<le> (y mod oh) * ow + x mod ow" using assms by simp
  have "(y mod oh) * ow \<le> (oh - 1) * ow"
    using a(2) assms(1) by (intro mult_right_mono) simp_all
  then show "(y mod oh) * ow + x mod ow < ow * oh"
    using a(4) by (simp add: algebra_simps)
qed

lemma source_tile_total:
  assumes "0 < ow" "0 < oh" "int (length tiles) = ow * oh" "\<forall>t\<in>set tiles. py_copy t = Inr t"
  shows "source_tile (JList tiles) ow oh x y = Inr (tiles ! nat ((y mod oh) * ow + x mod ow))"
proof -
  let ?i = "(y mod oh) * ow + x mod ow"
  from tile_index_bounds [OF assms(1,2), of y x] assms(3)
  have b: "0 \<le> ?i" "?i < int (length tiles)" by simp_all
  then have "nat ?i < length tiles" by simp
  with assms(4) have "py_copy (tiles ! nat ?i) = Inr (tiles ! nat ?i)" by simp
  with b assms(1,2) show ?thesis
    by (simp add: source_tile_def seq_getitem_def Let_def)
qed

subsection \<open>Tile Expander: what a successful run did\<close>

lemma hit_entry_shape:
  assumes "py_getitem e 0 = Inr i" and "py_eq_int i 315" and "py_getitem e 1 = Inr v"
  shows "\<exists>rest. e = JList (i # v # rest)"
proof (cases e)
  case (JList xs)
  with assms(1,3) have "seq_getitem xs 0 = Inr i" "seq_getitem xs 1 = Inr v" by simp_all
  then have "0 < length xs \<and> xs ! 0 = i" "1 < length xs \<and> xs ! 1 = v"
    by (auto simp: seq_getitem_def split: if_splits)
  then have "xs = i # v # drop 2 xs"
    by (cases xs; cases "tl xs") auto
  with JList show ?thesis by blast
next
  case (JStr s)
  with assms(1) obtain c where "i = JStr [c]" by (auto split: sum.splits)
  with assms(2) show ?thesis by (simp add: py_eq_int_def)
qed (insert assms, simp_all)

lemma found_in_list_section:
  assumes "py_iter sec = Inr entries"
      and "find_tilemap_entity entries 0 = Inr (Some (k, v))"
  shows "sec = JList entries"
proof -
  from find_tilemap_entity_split [OF assms(2)] obtain pre e post i where
    h: "entries = pre @ e # post" "py_getitem e 0 = Inr i" "py_eq_int i 315" "py_getitem e 1 = Inr v"
    by blast
  from hit_entry_shape [OF h(2,3,4)] obtain rest where e: "e = JList (i # v # rest)" ..
  from h(1) have mem: "e \<in> set entries" by simp
  show ?thesis
  proof (cases sec)
    case (JList xs)
    with assms(1) show ?thesis by simp
  next
    case (JStr s)
    with assms(1) mem e show ?thesis by auto
  next
    case (JDict d)
    with assms(1) mem e show ?thesis by auto
  qed (insert assms(1), simp_all)
qed

lemma found_entry_position:
  assumes "find_tilemap_entity entries 0 = Inr (Some (k, v))"
  shows "\<exists>pre i rest post. entries = pre @ JList (i # v # rest) # post \<and> length pre = k
           \<and> (\<forall>e\<in>set pre. \<exists>j. py_getitem e 0 = Inr j \<and> \<not> py_eq_int j 315)
           \<and> py_eq_int i 315"
proof -
  from find_tilemap_entity_split [OF assms] obtain pre e post i where
    h: "entries = pre @ e # post" "k = 0 + length pre"
       "\<forall>e'\<in>set pre. \<exists>j. py_getitem e' 0 = Inr j \<and> \<not> py_eq_int j 315"
       "py_getitem e 0 = Inr i" "py_eq_int i 315" "py_getitem e 1 = Inr v"
    by blast
  from hit_entry_shape [OF h(4,5,6)] obtain rest where "e = JList (i # v # rest)" ..
  with h show ?thesis by auto
qed

lemma find_tilemap_entity_at:
  assumes "\<forall>e\<in>set pre. \<exists>j. py_getitem e 0 = Inr j \<and> \<not> py_eq_int j 315"
      and "py_eq_int i 315"
  shows "find_tilemap_entity (pre @ JList (i # v # rest) # post) 0 = Inr (Some (length pre, v))"
  using find_tilemap_entity_hit [OF assms(1) _ assms(2), of "JList (i # v # rest)" v post 0]
  by (simp add: seq_getitem_def)

lemma put_tilemap_entity_at:
  assumes "map_of scene ''tilemaps'' = Some (JList (pre @ JList (i # v # rest) # post))"
  shows "put_tilemap_entity scene (length pre) v'
           = AList.update ''tilemaps'' (JList (pre @ JList (i # v' # rest) # post)) scene"
  using assms by (simp add: put_tilemap_entity_def)

lemma map_of_update_tilemap:
  "map_of (update_tilemap tm new_tiles nw nh) =
     (map_of tm)(''tiles'' \<mapsto> JList new_tiles, ''width'' \<mapsto> JInt nw, ''height'' \<mapsto> JInt nh)"
  by (simp add: update_tilemap_def update_conv')

lemma expand_tilemap_True:
  assumes "fst (expand_tilemap p ow oh nw nh w) = Inr True"
  obtains scene pre i tm rest post n new_tiles where
    "files w p = Some (Doc (JDict scene))"
    "map_of scene ''tilemaps'' = Some (JList (pre @ JList (i # JDict tm # rest) # post))"
    "\<forall>e\<in>set pre. \<exists>j. py_getitem e 0 = Inr j \<and> \<not> py_eq_int j 315"
    "py_eq_int i 315"
    "tm \<noteq> []"
    "py_len (dict_get tm ''tiles'' (JList [])) = Inr n"
    "int n = ow * oh"
    "grid_loop (dict_get tm ''tiles'' (JList [])) ow oh nw (py_range nh) [] = Inr new_tiles"
    "expand_tilemap p ow oh nw nh w =
       (Inr True,
        write_json p
          (JDict (AList.update ''tilemaps''
             (JList (pre @ JList (i # JDict (update_tilemap tm new_tiles nw nh) # rest) # post))
             scene))
          (say [Msg_Expanded ow oh nw nh, Msg_TileCount n (length new_tiles)] w))"
proof -
  from assms obtain scene where s: "files w p = Some (Doc (JDict scene))"
    by (auto simp: expand_tilemap_def load_json_def split: option.splits content.splits json.splits)
  let ?section = "dict_get scene ''tilemaps'' (JList [])"
  from assms s obtain entries where it: "py_iter ?section = Inr entries"
    by (cases "py_iter ?section") (auto simp: expand_tilemap_def load_json_def)
  from assms s it obtain k v where f: "find_tilemap_entity entries 0 = Inr (Some (k, v))"
    by (cases "find_tilemap_entity entries 0")
       (auto simp: expand_tilemap_def load_json_def split: option.splits)
  from assms s it f have tr: "truthy v"
    by (auto simp: expand_tilemap_def load_json_def split: if_splits)
  from assms s it f tr obtain tm where v: "v = JDict tm"
    by (cases v) (auto simp: expand_tilemap_def load_json_def)
  let ?tiles = "dict_get tm ''tiles'' (JList [])"
  from assms s it f tr v obtain n where n: "py_len ?tiles = Inr n"
    by (cases "py_len ?tiles") (auto simp: expand_tilemap_def load_json_def)
  from assms s it f tr v n have c: "int n = ow * oh"
    by (auto simp: expand_tilemap_def load_json_def split: if_splits)
  from assms s it f tr v n c obtain new_tiles where
    g: "grid_loop ?tiles ow oh nw (py_range nh) [] = Inr new_tiles"
    by (cases "grid_loop ?tiles ow oh nw (py_range nh) []")
       (auto simp: expand_tilemap_def load_json_def)
  from found_in_list_section [OF it f] have secl: "?section = JList entries" .
  from found_entry_position [OF f] v obtain pre i rest post where
    e: "entries = pre @ JList (i # JDict tm # rest) # post" "length pre = k"
       "\<forall>e\<in>set pre. \<exists>j. py_getitem e 0 = Inr j \<and> \<not> py_eq_int j 315" "py_eq_int i 315"
    by blast
  from secl e(1) have m: "map_of scene ''tilemaps'' = Some (JList (pre @ JList (i # JDict tm # rest) # post))"
    by (auto simp: dict_get_def split: option.splits)
  from put_tilemap_entity_at [OF m] e(2)
  have put: "put_tilemap_entity scene k v' =
               AList.update ''tilemaps'' (JList (pre @ JList (i # v' # rest) # post)) scene" for v'
    by simp
  from tr v have ne: "tm \<noteq> []" by simp
  from s it f tr v n c g
  have r: "expand_tilemap p ow oh nw nh w =
             (Inr True,
              write_json p
                (JDict (AList.update ''tilemaps''
                   (JList (pre @ JList (i # JDict (update_tilemap tm new_tiles nw nh) # rest) # post))
                   scene))
                (say [Msg_Expanded ow oh nw nh, Msg_TileCount n (length new_tiles)] w))"
    by (simp add: expand_tilemap_def load_json_def put)
  from that [OF s m e(3) e(4) ne n c g r] show ?thesis .
qed


lemma tilemap_tiles_SomeD:
  assumes "tilemap_tiles w p = Some tiles"
  obtains scene entries k tm where
    "files w p = Some (Doc (JDict scene))"
    "map_of scene ''tilemaps'' = Some (JList entries)"
    "find_tilemap_entity entries 0 = Inr (Some (k, JDict tm))"
    "map_of tm ''tiles'' = Some (JList tiles)"
  using assms unfolding tilemap_tiles_def
  by (auto split: option.splits content.splits json.splits sum.splits prod.splits)

lemma tilemap_tiles_written:
  assumes "\<forall>e\<in>set pre. \<exists>j. py_getitem e 0 = Inr j \<and> \<not> py_eq_int j 315"
      and "py_eq_int i 315"
  shows "tilemap_tiles
           (write_json p
              (JDict (AList.update ''tilemaps''
                 (JList (pre @ JList (i # JDict (update_tilemap tm new_tiles nw nh) # rest) # post))
                 scene)) w0) p
         = Some new_tiles"
  using find_tilemap_entity_at [OF assms, of "JDict (update_tilemap tm new_tiles nw nh)" rest post]
  by (simp add: tilemap_tiles_def update_conv' map_of_update_tilemap)

lemma grid_loop_length:
  assumes "grid_loop T ow oh nw (py_range nh) [] = Inr new_tiles"
  shows "length new_tiles = nat nh * nat nw"
proof -
  from assms have "new_tiles =
      concat (map (\<lambda>y. map (\<lambda>x. projr (source_tile T ow oh (int x) (int y))) [0..<nat nw]) [0..<nat nh])"
    by (simp add: grid_loop_Inr py_range_def comp_def)
  then show ?thesis by (simp add: length_concat_rows)
qed

lemma cell_index:
  fixes x y nw nh :: int
  assumes "0 \<le> x" "x < nw" "0 \<le> y" "y < nh"
  shows "nat (y * nw + x) = nat y * nat nw + nat x"
    and "0 \<le> y * nw + x"
    and "y * nw + x < int (nat nh * nat nw)"
proof -
  from assms show "nat (y * nw + x) = nat y * nat nw + nat x"
    by (simp add: nat_add_distrib nat_mult_distrib)
  from assms show "0 \<le> y * nw + x" by simp
  from assms have "y + 1 \<le> nh" "0 < nw" by simp_all
  then have "(y + 1) * nw \<le> nh * nw" by (intro mult_right_mono) simp_all
  with assms have "y * nw + x < nh * nw" by (simp add: algebra_simps)
  with assms show "y * nw + x < int (nat nh * nat nw)" by simp
qed

lemma grid_loop_cells:
  assumes "grid_loop (JList tiles) ow oh nw (py_range nh) [] = Inr new_tiles"
      and "0 \<le> x" "x < nw" "0 \<le> y" "y < nh"
  shows "seq_getitem new_tiles (y * nw + x) = seq_getitem tiles ((y mod oh) * ow + x mod ow)"
proof -
  let ?g = "\<lambda>y x. projr (source_tile (JList tiles) ow oh (int x) (int y))"
  from assms(1) have ok: "\<forall>y\<in>set (py_range nh). \<forall>x\<in>set (py_range nw).
                            \<exists>t. source_tile (JList tiles) ow oh x y = Inr t"
    and r: "new_tiles = concat (map (\<lambda>y. map (?g y) [0..<nat nw]) [0..<nat nh])"
    by (simp_all add: grid_loop_Inr py_range_def comp_def)
  from assms(2-5) have "x \<in> set (py_range nw)" "y \<in> set (py_range nh)"
    by (auto simp: py_range_def image_iff intro: bexI [of _ "nat x"] bexI [of _ "nat y"])
  with ok obtain t where t: "source_tile (JList tiles) ow oh x y = Inr t" by blast
  from assms(2-5) have "new_tiles ! (nat y * nat nw + nat x) = ?g (nat y) (nat x)"
    unfolding r by (intro nth_concat_rows) simp_all
  with t assms(2,4) have "new_tiles ! (nat y * nat nw + nat x) = t" by simp
  moreover from grid_loop_length [OF assms(1)] cell_index [OF assms(2-5)]
  have "seq_getitem new_tiles (y * nw + x) = Inr (new_tiles ! (nat y * nat nw + nat x))"
    by (simp add: seq_getitem_def)
  ultimately show ?thesis using source_tile_getitem [OF t] by simp
qed

lemma expand_tilemap_runs:
  assumes "files w p = Some (Doc (JDict scene))"
      and "map_of scene ''tilemaps'' = Some (JList entries)"
      and "find_tilemap_entity entries 0 = Inr (Some (k, JDict tm))"
      and "map_of tm ''tiles'' = Some (JList tiles)"
      and "int (length tiles) = ow * oh"
      and "\<forall>y\<in>set (py_range nh). \<forall>x\<in>set (py_range nw).
             \<exists>t. source_tile (JList tiles) ow oh x y = Inr t"
  shows "fst (expand_tilemap p ow oh nw nh w) = Inr True"
proof -
  from assms(4) have ne: "tm \<noteq> []" by auto
  from assms(6) obtain new_tiles where
    "grid_loop (JList tiles) ow oh nw (py_range nh) [] = Inr new_tiles"
    by (simp add: grid_loop_Inr)
  with assms(1-5) ne show ?thesis
    by (simp add: expand_tilemap_def load_json_def dict_get_def)
qed

lemma expand_tilemap_result_tiles:
  assumes "tilemap_tiles w p = Some tiles"
      and "fst (expand_tilemap p ow oh nw nh w) = Inr True"
  obtains new_tiles where
    "tilemap_tiles (snd (expand_tilemap p ow oh nw nh w)) p = Some new_tiles"
    "grid_loop (JList tiles) ow oh nw (py_range nh) [] = Inr new_tiles"
proof -
  from tilemap_tiles_SomeD [OF assms(1)] obtain scene entries k tm where
    a: "files w p = Some (Doc (JDict scene))"
       "map_of scene ''tilemaps'' = Some (JList entries)"
       "find_tilemap_entity entries 0 = Inr (Some (k, JDict tm))"
       "map_of tm ''tiles'' = Some (JList tiles)" .
  from expand_tilemap_True [OF assms(2)] obtain scene' pre i tm' rest post n new_tiles where
    b: "files w p = Some (Doc (JDict scene'))"
       "map_of scene' ''tilemaps'' = Some (JList (pre @ JList (i # JDict tm' # rest) # post))"
       "\<forall>e\<in>set pre. \<exists>j. py_getitem e 0 = Inr j \<and> \<not> py_eq_int j 315"
       "py_eq_int i 315"
       "grid_loop (dict_get tm' ''tiles'' (JList [])) ow oh nw (py_range nh) [] = Inr new_tiles"
       "expand_tilemap p ow oh nw nh w =
          (Inr True,
           write_json p
             (JDict (AList.update ''tilemaps''
                (JList (pre @ JList (i # JDict (update_tilemap tm' new_tiles nw nh) # rest) # post))
                scene'))
             (say [Msg_Expanded ow oh nw nh, Msg_TileCount n (length new_tiles)] w))" .
  from a(1,2) b(1,2) have "entries = pre @ JList (i # JDict tm' # rest) # post" by simp
  with a(3) find_tilemap_entity_at [OF b(3,4), of "JDict tm'" rest post] have "tm' = tm" by simp
  with a(4) b(5) have g: "grid_loop (JList tiles) ow oh nw (py_range nh) [] = Inr new_tiles"
    by (simp add: dict_get_def)
  from b(6) tilemap_tiles_written [OF b(3,4)]
  have "tilemap_tiles (snd (expand_tilemap p ow oh nw nh w)) p = Some new_tiles" by simp
  from that [OF this g] show ?thesis .
qed

text \<open>
  Claim C2. Let the tilemap the expander locates in the scene file hold \<open>tiles\<close>, a list
  of exactly \<open>old_width * old_height\<close> tiles, and let the new dimensions be at least the
  old ones. Then (1) when the old dimensions are positive and every tile is a mapping
  or a list (so that it can be copied), \<open>expand_tilemap\<close> succeeds; and (2) whenever it
  succeeds, the tile list of that tilemap in the written file has
  \<open>new_height * new_width\<close> tiles, and for every cell \<open>(x, y)\<close> of the new grid the tile at
  index \<open>y * new_width + x\<close> is the original tile at index
  \<open>(y mod old_height) * old_width + x mod old_width\<close> (Python indexing on both sides).
\<close>

theorem expand_tilemap_tiling:
  assumes "tilemap_tiles w p = Some tiles"
      and "int (length tiles) = old_width * old_height"
      and "old_width \<le> new_width" and "old_height \<le> new_height"
  shows "(0 < old_width \<and> 0 < old_height \<and> (\<forall>t\<in>set tiles. py_copy t = Inr t)
            \<longrightarrow> fst (expand_tilemap p old_width old_height new_width new_height w) = Inr True)
       \<and> (fst (expand_tilemap p old_width old_height new_width new_height w) = Inr True
            \<longrightarrow> (\<exists>new_tiles.
                   tilemap_tiles (snd (expand_tilemap p old_width old_height new_width new_height w)) p
                     = Some new_tiles
                 \<and> length new_tiles = nat new_height * nat new_width
                 \<and> (\<forall>x y. 0 \<le> x \<and> x < new_width \<and> 0 \<le> y \<and> y < new_height
                      \<longrightarrow> seq_getitem new_tiles (y * new_width + x)
                          = seq_getitem tiles ((y mod old_height) * old_width + x mod old_width))))"
proof (intro conjI impI)
  assume wf: "0 < old_width \<and> 0 < old_height \<and> (\<forall>t\<in>set tiles. py_copy t = Inr t)"
  from tilemap_tiles_SomeD [OF assms(1)] obtain scene entries k tm where
    a: "files w p = Some (Doc (JDict scene))"
       "map_of scene ''tilemaps'' = Some (JList entries)"
       "find_tilemap_entity entries 0 = Inr (Some (k, JDict tm))"
       "map_of tm ''tiles'' = Some (JList tiles)" .
  from wf assms(2) have "source_tile (JList tiles) old_width old_height x y
                           = Inr (tiles ! nat ((y mod old_height) * old_width + x mod old_width))" for x y
    by (intro source_tile_total) simp_all
  then have "\<forall>y\<in>set (py_range new_height). \<forall>x\<in>set (py_range new_width).
               \<exists>t. source_tile (JList tiles) old_width old_height x y = Inr t"
    by simp
  from expand_tilemap_runs [OF a assms(2) this]
  show "fst (expand_tilemap p old_width old_height new_width new_height w) = Inr True" .
next
  assume ok: "fst (expand_tilemap p old_width old_height new_width new_height w) = Inr True"
  from expand_tilemap_result_tiles [OF assms(1) ok] obtain new_tiles where
    n: "tilemap_tiles (snd (expand_tilemap p old_width old_height new_width new_height w)) p
          = Some new_tiles"
       "grid_loop (JList tiles) old_width old_height new_width (py_range new_height) [] = Inr new_tiles" .
  from grid_loop_cells [OF n(2)] grid_loop_length [OF n(2)] n(1)
  show "\<exists>new_tiles.
          tilemap_tiles (snd (expand_tilemap p old_width old_height new_width new_height w)) p
            = Some new_tiles
        \<and> length new_tiles = nat new_height * nat new_width
        \<and> (\<forall>x y. 0 \<le> x \<and> x < new_width \<and> 0 \<le> y \<and> y < new_height
             \<longrightarrow> seq_getitem new_tiles (y * new_width + x)
                 = seq_getitem tiles ((y mod old_height) * old_width + x mod old_width))"
    by auto
qed

lemma seq_getitem_nth: "i < length xs \<Longrightarrow> seq_getitem xs (int i) = Inr (xs ! i)"
  by (simp add: seq_getitem_def)

theorem expand_tilemap_tiling_witness:
  "tilemap_tiles small_tilemap_world scene_file = Some [JDict [(''id'', JInt 0)], JDict [(''id'', JInt 1)]]
   \<and> int (length [JDict [(''id'', JInt 0)], JDict [(''id'', JInt 1)]]) = 2 * 1
   \<and> (2::int) \<le> 3 \<and> (1::int) \<le> 2
   \<and> (0::int) < 2 \<and> (0::int) < 1
   \<and> py_copy (JDict [(''id'', JInt 0)]) = Inr (JDict [(''id'', JInt 0)])
   \<and> py_copy (JDict [(''id'', JInt 1)]) = Inr (JDict [(''id'', JInt 1)])
   \<and> fst (expand_tilemap scene_file 2 1 3 2 small_tilemap_world) = Inr True
   \<and> (\<exists>new_tiles.
         tilemap_tiles (snd (expand_tilemap scene_file 2 1 3 2 small_tilemap_world)) scene_file
           = Some new_tiles
       \<and> length new_tiles = 6
       \<and> seq_getitem new_tiles (1 * 3 + 1) = Inr (JDict [(''id'', JInt 1)]))"
proof -
  let ?tiles = "[JDict [(''id'', JInt 0)], JDict [(''id'', JInt 1)]]"
  have a: "tilemap_tiles small_tilemap_world scene_file = Some ?tiles"
    by (simp add: tilemap_tiles_def small_tilemap_world_def small_tilemap_scene_def
        seq_getitem_def py_eq_int_def)
  have b: "int (length ?tiles) = 2 * 1" by simp
  have c: "\<forall>t\<in>set ?tiles. py_copy t = Inr t" by simp
  from expand_tilemap_tiling [OF a b, of 3 2] c
  have ok: "fst (expand_tilemap scene_file 2 1 3 2 small_tilemap_world) = Inr True"
    and "\<exists>new_tiles.
           tilemap_tiles (snd (expand_tilemap scene_file 2 1 3 2 small_tilemap_world)) scene_file
             = Some new_tiles
         \<and> length new_tiles = nat 2 * nat 3
         \<and> (\<forall>x y. 0 \<le> x \<and> x < 3 \<and> 0 \<le> y \<and> y < 2
              \<longrightarrow> seq_getitem new_tiles (y * 3 + x)
                  = seq_getitem ?tiles ((y mod 1) * 2 + x mod 2))"
    by simp_all
  then obtain new_tiles where
    n: "tilemap_tiles (snd (expand_tilemap scene_file 2 1 3 2 small_tilemap_world)) scene_file
          = Some new_tiles"
       "length new_tiles = nat 2 * nat 3"
       "\<forall>x y. 0 \<le> x \<and> x < 3 \<and> 0 \<le> y \<and> y < 2
          \<longrightarrow> seq_getitem new_tiles (y * 3 + x) = seq_getitem ?tiles ((y mod 1) * 2 + x mod 2)"
    by blast
  from n(3) have "seq_getitem new_tiles (1 * 3 + 1) = seq_getitem ?tiles ((1 mod 1) * 2 + 1 mod 2)"
    by (intro mp [OF spec [OF spec [OF n(3)]]]) simp
  then have "seq_getitem new_tiles (1 * 3 + 1) = Inr (JDict [(''id'', JInt 1)])"
    by (simp add: seq_getitem_def)
  with a b c ok n(1,2) show ?thesis by simp
qed

subsection \<open>Tile Expander: equal dimensions\<close>

text \<open>
  Claim C3. Let the tilemap the expander locates hold \<open>tiles\<close>, a list of exactly
  \<open>old_width * old_height\<close> tiles that are mappings or lists, with dimensions that are
  not negative. Run with the new dimensions equal to the old ones, \<open>expand_tilemap\<close>
  succeeds and the tile list of that tilemap in the written file is \<open>tiles\<close> again.
\<close>

theorem expand_tilemap_same_size:
  assumes "tilemap_tiles w p = Some tiles"
      and "int (length tiles) = old_width * old_height"
      and "0 \<le> old_width" and "0 \<le> old_height"
      and "\<forall>t\<in>set tiles. py_copy t = Inr t"
  shows "fst (expand_tilemap p old_width old_height old_width old_height w) = Inr True
       \<and> tilemap_tiles (snd (expand_tilemap p old_width old_height old_width old_height w)) p
           = Some tiles"
proof -
  let ?run = "expand_tilemap p old_width old_height old_width old_height w"
  from tilemap_tiles_SomeD [OF assms(1)] obtain scene entries k tm where
    a: "files w p = Some (Doc (JDict scene))"
       "map_of scene ''tilemaps'' = Some (JList entries)"
       "find_tilemap_entity entries 0 = Inr (Some (k, JDict tm))"
       "map_of tm ''tiles'' = Some (JList tiles)" .
  have cells: "\<forall>y\<in>set (py_range old_height). \<forall>x\<in>set (py_range old_width).
                 \<exists>t. source_tile (JList tiles) old_width old_height x y = Inr t"
  proof (intro ballI)
    fix y x
    assume "y \<in> set (py_range old_height)" "x \<in> set (py_range old_width)"
    then have "0 < old_height" "0 < old_width" by (auto simp: py_range_def)
    from source_tile_total [OF this(2) this(1) assms(2) assms(5)]
    show "\<exists>t. source_tile (JList tiles) old_width old_height x y = Inr t" by blast
  qed
  from expand_tilemap_runs [OF a assms(2) cells] have ok: "fst ?run = Inr True" .
  from expand_tilemap_result_tiles [OF assms(1) ok] obtain new_tiles where
    n: "tilemap_tiles (snd ?run) p = Some new_tiles"
       "grid_loop (JList tiles) old_width old_height old_width (py_range old_height) [] = Inr new_tiles" .
  from assms(2,3,4) have len: "length tiles = nat old_height * nat old_width"
    by (metis mult.commute nat_int nat_mult_distrib)
  have "new_tiles = tiles"
  proof (rule nth_equalityI)
    from grid_loop_length [OF n(2)] len show "length new_tiles = length tiles" by simp
  next
    fix i
    assume "i < length new_tiles"
    with grid_loop_length [OF n(2)] have i: "i < nat old_height * nat old_width" by simp
    have pos: "0 < nat old_width" "0 < nat old_height"
      using i by (cases "old_width \<le> 0"; cases "old_height \<le> 0"; simp)+
    let ?x = "int (i mod nat old_width)" and ?y = "int (i div nat old_width)"
    from pos have x: "0 \<le> ?x" "?x < old_width"
      by (simp_all add: zmod_int)
    from i have "i div nat old_width < nat old_height"
      by (simp add: less_mult_imp_div_less)
    then have y: "0 \<le> ?y" "?y < old_height" by simp_all
    from pos have eq: "?y * old_width + ?x = int i"
      by (metis div_mult_mod_eq int_nat_eq int_ops(7) of_nat_0_less_iff of_nat_add order_less_imp_le zero_less_nat_eq)
    from x y have "?y mod old_height = ?y" "?x mod old_width = ?x" by simp_all
    with grid_loop_cells [OF n(2) x y] eq
    have "seq_getitem new_tiles (int i) = seq_getitem tiles (int i)" by simp
    moreover from i len grid_loop_length [OF n(2)]
    have "seq_getitem new_tiles (int i) = Inr (new_tiles ! i)"
         "seq_getitem tiles (int i) = Inr (tiles ! i)"
      by (simp_all add: seq_getitem_nth)
    ultimately show "new_tiles ! i = tiles ! i" by simp
  qed
  with ok n(1) show ?thesis by simp
qed

theorem expand_tilemap_same_size_witness:
  "tilemap_tiles small_tilemap_world scene_file = Some [JDict [(''id'', JInt 0)], JDict [(''id'', JInt 1)]]
   \<and> int (length [JDict [(''id'', JInt 0)], JDict [(''id'', JInt 1)]]) = 2 * 1
   \<and> (0::int) \<le> 2 \<and> (0::int) \<le> 1
   \<and> py_copy (JDict [(''id'', JInt 0)]) = Inr (JDict [(''id'', JInt 0)])
   \<and> py_copy (JDict [(''id'', JInt 1)]) = Inr (JDict [(''id'', JInt 1)])
   \<and> fst (expand_tilemap scene_file 2 1 2 1 small_tilemap_world) = Inr True
   \<and> tilemap_tiles (snd (expand_tilemap scene_file 2 1 2 1 small_tilemap_world)) scene_file
       = Some [JDict [(''id'', JInt 0)], JDict [(''id'', JInt 1)]]"
proof -
  let ?tiles = "[JDict [(''id'', JInt 0)], JDict [(''id'', JInt 1)]]"
  have a: "tilemap_tiles small_tilemap_world scene_file = Some ?tiles"
    by (simp add: tilemap_tiles_def small_tilemap_world_def small_tilemap_scene_def
        seq_getitem_def py_eq_int_def)
  have b: "int (length ?tiles) = 2 * 1" by simp
  have c: "(0::int) \<le> 2" "(0::int) \<le> 1" by simp_all
  have d: "\<forall>t\<in>set ?tiles. py_copy t = Inr t" by simp
  from expand_tilemap_same_size [OF a b c d] a b c d show ?thesis by simp
qed

subsection \<open>Tile Expander: running it again\<close>

lemma expand_main_of_True:
  assumes "fst (expand_tilemap scene_file 10 10 20 20 w) = Inr True"
  shows "fst (expand_main w) = Inr 0"
    and "files (snd (expand_main w)) = files (snd (expand_tilemap scene_file 10 10 20 20 w))"
    and "out (snd (expand_main w)) = out (snd (expand_tilemap scene_file 10 10 20 20 w)) @ [Msg_Success]"
  using assms by (cases "expand_tilemap scene_file 10 10 20 20 w"; simp add: expand_main_def)+

lemma rerun_tile_count:
  assumes "fst (expand_tilemap p ow oh nw nh w) = Inr True"
      and "int (nat nh * nat nw) \<noteq> ow * oh"
      and "files w1 = files (snd (expand_tilemap p ow oh nw nh w))"
  shows "expand_tilemap p ow oh nw nh w1
           = (Inr False, say [Msg_Expected (ow * oh) (nat nh * nat nw)] w1)"
proof -
  from expand_tilemap_True [OF assms(1)] obtain scene pre i tm rest post n new_tiles where
    b: "\<forall>e\<in>set pre. \<exists>j. py_getitem e 0 = Inr j \<and> \<not> py_eq_int j 315"
       "py_eq_int i 315"
       "grid_loop (dict_get tm ''tiles'' (JList [])) ow oh nw (py_range nh) [] = Inr new_tiles"
       "expand_tilemap p ow oh nw nh w =
          (Inr True,
           write_json p
             (JDict (AList.update ''tilemaps''
                (JList (pre @ JList (i # JDict (update_tilemap tm new_tiles nw nh) # rest) # post))
                scene))
             (say [Msg_Expanded ow oh nw nh, Msg_TileCount n (length new_tiles)] w))" .
  let ?tm = "update_tilemap tm new_tiles nw nh"
  let ?entries = "pre @ JList (i # JDict ?tm # rest) # post"
  from assms(3) b(4)
  have f: "files w1 p = Some (Doc (JDict (AList.update ''tilemaps'' (JList ?entries) scene)))"
    by simp
  have it: "py_iter (dict_get (AList.update ''tilemaps'' (JList ?entries) scene) ''tilemaps'' (JList []))
              = Inr ?entries"
    by (simp add: dict_get_def update_conv')
  have fd: "find_tilemap_entity ?entries 0 = Inr (Some (length pre, JDict ?tm))"
    by (rule find_tilemap_entity_at [OF b(1,2)])
  have ne: "?tm \<noteq> []" by (simp add: update_tilemap_def)
  have ln: "py_len (dict_get ?tm ''tiles'' (JList [])) = Inr (nat nh * nat nw)"
    using grid_loop_length [OF b(3)] by (simp add: dict_get_def map_of_update_tilemap)
  from f it fd ne ln assms(2) show ?thesis
    by (simp add: expand_tilemap_def load_json_def)
qed

text \<open>
  Claim C4, as the code has it. After a successful run, a second run with the same old
  and new dimensions on the files the first run left does not recompute a tiling:
  unless the new grid has as many cells as the old one, the tile-count check fails, the
  expander prints the expected and the found count, returns \<^verbatim>\<open>False\<close> and writes nothing.
\<close>

theorem expand_tilemap_rerun:
  assumes "fst (expand_tilemap p old_width old_height new_width new_height w) = Inr True"
      and "int (nat new_height * nat new_width) \<noteq> old_width * old_height"
      and "files w1 = files (snd (expand_tilemap p old_width old_height new_width new_height w))"
  shows "fst (expand_tilemap p old_width old_height new_width new_height w1) = Inr False
       \<and> files (snd (expand_tilemap p old_width old_height new_width new_height w1)) = files w1
       \<and> out (snd (expand_tilemap p old_width old_height new_width new_height w1))
           = out w1 @ [Msg_Expected (old_width * old_height) (nat new_height * nat new_width)]"
  using rerun_tile_count [OF assms] by simp

lemma grid_world_first_run: "fst (expand_tilemap scene_file 10 10 20 20 grid_world) = Inr True"
proof -
  let ?tm = "[(''tiles'', JList grid_tiles), (''width'', JInt 10), (''height'', JInt 10)]"
  let ?entries = "[JList [JInt 315, JDict ?tm]]"
  have a: "files grid_world scene_file = Some (Doc (JDict [(''tilemaps'', JList ?entries)]))"
    by (simp add: grid_world_def grid_scene_def)
  have b: "map_of [(''tilemaps'', JList ?entries)] ''tilemaps'' = Some (JList ?entries)" by simp
  have c: "find_tilemap_entity ?entries 0 = Inr (Some (0, JDict ?tm))"
    by (simp add: seq_getitem_def py_eq_int_def)
  have d: "map_of ?tm ''tiles'' = Some (JList grid_tiles)" by simp
  have e: "int (length grid_tiles) = 10 * 10" by (simp add: grid_tiles_def)
  have g: "\<forall>t\<in>set grid_tiles. py_copy t = Inr t" by (auto simp: grid_tiles_def)
  have "source_tile (JList grid_tiles) 10 10 x y
          = Inr (grid_tiles ! nat ((y mod 10) * 10 + x mod 10))" for x y
    by (rule source_tile_total [OF _ _ e g]) simp_all
  then have h: "\<forall>y\<in>set (py_range 20). \<forall>x\<in>set (py_range 20).
                 \<exists>t. source_tile (JList grid_tiles) 10 10 x y = Inr t"
    by simp
  from expand_tilemap_runs [OF a b c d e h] show ?thesis .
qed

text \<open>
  The script run twice on a scene with a 10 by 10 tilemap: the first run succeeds with
  exit status 0; the second finds 400 tiles where it expects 100, reports it, exits
  with status 1 and leaves the files as the first run wrote them.
\<close>

theorem rerun_fails_counterexample:
  "fst (expand_main grid_world) = Inr 0
   \<and> exit_status (fst (expand_main (snd (expand_main grid_world)))) = 1
   \<and> out (snd (expand_main (snd (expand_main grid_world))))
       = out (snd (expand_main grid_world)) @ [Msg_Expected 100 400, Msg_Failed]
   \<and> files (snd (expand_main (snd (expand_main grid_world)))) = files (snd (expand_main grid_world))"
proof -
  let ?w1 = "snd (expand_main grid_world)"
  note first = expand_main_of_True [OF grid_world_first_run]
  have "int (nat 20 * nat 20) \<noteq> 10 * 10" by simp
  from rerun_tile_count [OF grid_world_first_run this, of ?w1] first(2)
  have r: "expand_tilemap scene_file 10 10 20 20 ?w1 = (Inr False, say [Msg_Expected 100 400] ?w1)"
    by simp
  then have "fst (expand_tilemap scene_file 10 10 20 20 ?w1) = Inr False" by simp
  from expand_main_of_False [OF this] r first(1) show ?thesis by simp
qed

theorem expand_tilemap_rerun_witness:
  "fst (expand_tilemap scene_file 10 10 20 20 grid_world) = Inr True
   \<and> int (nat 20 * nat 20) \<noteq> 10 * 10
   \<and> fst (expand_tilemap scene_file 10 10 20 20 (snd (expand_tilemap scene_file 10 10 20 20 grid_world)))
       = Inr False
   \<and> out (snd (expand_tilemap scene_file 10 10 20 20 (snd (expand_tilemap scene_file 10 10 20 20 grid_world))))
       = out (snd (expand_tilemap scene_file 10 10 20 20 grid_world)) @ [Msg_Expected 100 400]"
proof -
  have a: "int (nat 20 * nat 20) \<noteq> 10 * 10" by simp
  from expand_tilemap_rerun [OF grid_world_first_run a refl] grid_world_first_run
  show ?thesis by simp
qed

subsection \<open>Tile Expander: what a successful run leaves alone\<close>

text \<open>
  Claim C9. A successful run writes the scene file and no other. In the written scene
  the section names are those of the scene read, in the same order, and every section
  other than \<^verbatim>\<open>tilemaps\<close> has its value unchanged; the \<^verbatim>\<open>tilemaps\<close> list has the same
  length and the same entries except at the position \<open>k\<close> of the located entry; that
  entry has the same length and the same elements except element 1, the tilemap data;
  and the new tilemap data agrees with the old on every field other than \<^verbatim>\<open>tiles\<close>,
  \<^verbatim>\<open>width\<close> and \<^verbatim>\<open>height\<close>.
\<close>

theorem expand_tilemap_frame:
  assumes "fst (expand_tilemap p old_width old_height new_width new_height w) = Inr True"
  shows "\<exists>scene scene' entries entries' k es es' tm tm'.
           files w p = Some (Doc (JDict scene))
         \<and> files (snd (expand_tilemap p old_width old_height new_width new_height w))
             = (files w)(p \<mapsto> Doc (JDict scene'))
         \<and> map fst scene' = map fst scene
         \<and> (\<forall>s. s \<noteq> ''tilemaps'' \<longrightarrow> map_of scene' s = map_of scene s)
         \<and> map_of scene ''tilemaps'' = Some (JList entries)
         \<and> map_of scene' ''tilemaps'' = Some (JList entries')
         \<and> find_tilemap_entity entries 0 = Inr (Some (k, JDict tm))
         \<and> length entries' = length entries \<and> k < length entries
         \<and> (\<forall>j. j \<noteq> k \<longrightarrow> entries' ! j = entries ! j)
         \<and> entries ! k = JList es \<and> entries' ! k = JList es'
         \<and> length es' = length es \<and> 1 < length es
         \<and> (\<forall>j. j \<noteq> 1 \<longrightarrow> es' ! j = es ! j)
         \<and> es ! 1 = JDict tm \<and> es' ! 1 = JDict tm'
         \<and> (\<forall>f. f \<notin> {''tiles'', ''width'', ''height''} \<longrightarrow> map_of tm' f = map_of tm f)"
proof -
  from expand_tilemap_True [OF assms] obtain scene pre i tm rest post n new_tiles where
    b: "files w p = Some (Doc (JDict scene))"
       "map_of scene ''tilemaps'' = Some (JList (pre @ JList (i # JDict tm # rest) # post))"
       "\<forall>e\<in>set pre. \<exists>j. py_getitem e 0 = Inr j \<and> \<not> py_eq_int j 315"
       "py_eq_int i 315"
       "expand_tilemap p old_width old_height new_width new_height w =
          (Inr True,
           write_json p
             (JDict (AList.update ''tilemaps''
                (JList (pre @ JList (i # JDict (update_tilemap tm new_tiles new_width new_height) # rest) # post))
                scene))
             (say [Msg_Expanded old_width old_height new_width new_height,
                   Msg_TileCount n (length new_tiles)] w))" .
  let ?tm' = "update_tilemap tm new_tiles new_width new_height"
  let ?es = "i # JDict tm # rest" and ?es' = "i # JDict ?tm' # rest"
  let ?entries = "pre @ JList ?es # post" and ?entries' = "pre @ JList ?es' # post"
  let ?scene' = "AList.update ''tilemaps'' (JList ?entries') scene"
  have 1: "files (snd (expand_tilemap p old_width old_height new_width new_height w))
             = (files w)(p \<mapsto> Doc (JDict ?scene'))"
    by (simp add: b(5))
  from b(2) have "''tilemaps'' \<in> set (map fst scene)"
    by (metis map_of_eq_None_iff option.distinct(1) set_map)
  then have 2: "map fst ?scene' = map fst scene" by (simp add: update_keys)
  have 3: "\<forall>s. s \<noteq> ''tilemaps'' \<longrightarrow> map_of ?scene' s = map_of scene s"
    by (simp add: update_conv')
  have 4: "map_of ?scene' ''tilemaps'' = Some (JList ?entries')" by (simp add: update_conv')
  have 5: "find_tilemap_entity ?entries 0 = Inr (Some (length pre, JDict tm))"
    by (rule find_tilemap_entity_at [OF b(3,4)])
  have 6: "length ?entries' = length ?entries \<and> length pre < length ?entries" by simp
  have 7: "\<forall>j. j \<noteq> length pre \<longrightarrow> ?entries' ! j = ?entries ! j"
    by (simp add: nth_append nth_Cons split: nat.splits)
  have 8: "?entries ! length pre = JList ?es \<and> ?entries' ! length pre = JList ?es'" by simp
  have 9: "length ?es' = length ?es \<and> 1 < length ?es" by simp
  have 10: "\<forall>j. j \<noteq> 1 \<longrightarrow> ?es' ! j = ?es ! j"
    by (simp add: nth_Cons split: nat.splits)
  have 11: "?es ! 1 = JDict tm \<and> ?es' ! 1 = JDict ?tm'" by simp
  have 12: "\<forall>f. f \<notin> {''tiles'', ''width'', ''height''} \<longrightarrow> map_of ?tm' f = map_of tm f"
    by (simp add: map_of_update_tilemap)
  show ?thesis
    apply (rule exI [of _ scene], rule exI [of _ ?scene'], rule exI [of _ ?entries],
           rule exI [of _ ?entries'], rule exI [of _ "length pre"], rule exI [of _ ?es],
           rule exI [of _ ?es'], rule exI [of _ tm], rule exI [of _ ?tm'])
    using b(1,2) 1 2 3 4 5 6 7 8 9 10 11 12 by blast
qed

lemma small_world_run: "fst (expand_tilemap scene_file 2 1 3 2 small_tilemap_world) = Inr True"
  by code_simp

theorem expand_tilemap_frame_witness:
  "fst (expand_tilemap scene_file 2 1 3 2 small_tilemap_world) = Inr True
   \<and> (\<exists>scene scene' entries entries' k es es' tm tm'.
           files small_tilemap_world scene_file = Some (Doc (JDict scene))
         \<and> files (snd (expand_tilemap scene_file 2 1 3 2 small_tilemap_world))
             = (files small_tilemap_world)(scene_file \<mapsto> Doc (JDict scene'))
         \<and> map fst scene' = map fst scene
         \<and> (\<forall>s. s \<noteq> ''tilemaps'' \<longrightarrow> map_of scene' s = map_of scene s)
         \<and> map_of scene ''tilemaps'' = Some (JList entries)
         \<and> map_of scene' ''tilemaps'' = Some (JList entries')
         \<and> find_tilemap_entity entries 0 = Inr (Some (k, JDict tm))
         \<and> length entries' = length entries \<and> k < length entries
         \<and> (\<forall>j. j \<noteq> k \<longrightarrow> entries' ! j = entries ! j)
         \<and> entries ! k = JList es \<and> entries' ! k = JList es'
         \<and> length es' = length es \<and> 1 < length es
         \<and> (\<forall>j. j \<noteq> 1 \<longrightarrow> es' ! j = es ! j)
         \<and> es ! 1 = JDict tm \<and> es' ! 1 = JDict tm'
         \<and> (\<forall>f. f \<notin> {''tiles'', ''width'', ''height''} \<longrightarrow> map_of tm' f = map_of tm f))"
  using expand_tilemap_frame [OF small_world_run] small_world_run by (rule conjI [rotated])

subsection \<open>Collider Cleaner: the removal pass\<close>

lemma filter_entries_Inr:
  "filter_entries ids es acc = Inr r
   \<longleftrightarrow> (\<forall>e\<in>set es. entry_id_hashable e) \<and> r = acc @ filter (retained ids) es"
  by (induction ids es acc rule: filter_entries.induct)
     (auto simp: entry_id_hashable_def retained_def)

lemma filter_same_length: "length (filter P xs) = length xs \<Longrightarrow> filter P xs = xs"
  by (metis filter_True length_filter_less less_irrefl)

lemma update_in_place:
  "k \<notin> fst ` set xs \<Longrightarrow> AList.update k v (xs @ (k, v0) # ys) = xs @ (k, v) # ys"
  by (induction xs) auto

lemma clean_sections_step:
  "clean_sections ids ((k, v) # items) scene n ms =
     (case v of
        JList es \<Rightarrow>
          (case filter_entries ids es [] of
             Inl e \<Rightarrow> (Inl e, ms)
           | Inr f \<Rightarrow>
               if length f \<noteq> length es
               then clean_sections ids items (AList.update k (JList f) scene) (Suc n)
                      (ms @ [Msg_Cleaned k (length es - length f)])
               else clean_sections ids items scene n ms)
      | _ \<Rightarrow> clean_sections ids items scene n ms)"
  by (cases v) simp_all

lemma clean_sections_Inr:
  assumes "distinct (map fst (seen @ items))"
      and "clean_sections ids items (seen @ items) n ms = (Inr (scene', n'), ms')"
  shows "scene' = seen @ map (\<lambda>(k, v). (k, cleaned_section ids v)) items"
  using assms
proof (induction items arbitrary: seen n ms)
  case Nil
  then show ?case by simp
next
  case (Cons item items)
  obtain k v where item: "item = (k, v)" by (cases item)
  from Cons.prems(1) item have nk: "k \<notin> fst ` set seen" by auto
  from Cons.prems(1) item have d: "distinct (map fst ((seen @ [(k, v')]) @ items))" for v'
    by auto
  show ?case
  proof (cases "\<exists>es. v = JList es")
    case False
    then have cs: "cleaned_section ids v = v"
      by (cases v) (simp_all add: cleaned_section_def)
    from False Cons.prems(2) item
    have "clean_sections ids items ((seen @ [(k, v)]) @ items) n ms = (Inr (scene', n'), ms')"
      by (cases v) (simp_all add: clean_sections_step)
    from Cons.IH [OF d this] item cs show ?thesis by simp
  next
    case True
    then obtain es where v: "v = JList es" ..
    from Cons.prems(2) item v obtain f where f: "filter_entries ids es [] = Inr f"
      by (cases "filter_entries ids es []") (simp_all add: clean_sections_step)
    then have ff: "f = filter (retained ids) es" by (simp add: filter_entries_Inr)
    have cs: "cleaned_section ids v = JList f" by (simp add: v ff cleaned_section_def)
    show ?thesis
    proof (cases "length f = length es")
      case True
      with ff have "f = es" by (simp add: filter_same_length)
      from True f Cons.prems(2) item v
      have "clean_sections ids items ((seen @ [(k, v)]) @ items) n ms = (Inr (scene', n'), ms')"
        by (simp add: clean_sections_step)
      from Cons.IH [OF d this] item cs \<open>f = es\<close> v show ?thesis by simp
    next
      case False
      from update_in_place [OF nk, of "JList f" v items]
      have "AList.update k (JList f) (seen @ (k, v) # items) = (seen @ [(k, JList f)]) @ items"
        by simp
      with False f Cons.prems(2) item v
      have "clean_sections ids items ((seen @ [(k, JList f)]) @ items) (Suc n)
              (ms @ [Msg_Cleaned k (length es - length f)]) = (Inr (scene', n'), ms')"
        by (simp add: clean_sections_step)
      from Cons.IH [OF d this] item cs show ?thesis by simp
    qed
  qed
qed

lemma clean_sections_ok:
  assumes "\<forall>k es. (k, JList es) \<in> set items \<longrightarrow> (\<forall>e\<in>set es. entry_id_hashable e)"
  shows "\<exists>r ms'. clean_sections ids items scene n ms = (Inr r, ms')"
  using assms
proof (induction items arbitrary: scene n ms)
  case Nil
  then show ?case by simp
next
  case (Cons item items)
  obtain k v where item: "item = (k, v)" by (cases item)
  from Cons.prems have rest: "\<forall>k es. (k, JList es) \<in> set items \<longrightarrow> (\<forall>e\<in>set es. entry_id_hashable e)"
    by auto
  show ?case
  proof (cases "\<exists>es. v = JList es")
    case False
    with Cons.IH [OF rest] item show ?thesis
      by (cases v) (simp_all add: clean_sections_step)
  next
    case True
    then obtain es where v: "v = JList es" ..
    with Cons.prems item have "\<forall>e\<in>set es. entry_id_hashable e" by auto
    then have "filter_entries ids es [] = Inr (filter (retained ids) es)"
      by (simp add: filter_entries_Inr)
    with Cons.IH [OF rest] item v show ?thesis
      by (simp add: clean_sections_step)
  qed
qed

lemma cleaned_section_no_ids: "cleaned_section [] v = v"
proof -
  have "retained [] e" for e
    by (simp add: retained_def py_in_def split: json.splits list.splits)
  then show ?thesis by (cases v) (simp_all add: cleaned_section_def)
qed

text \<open>
  Claim C5. Let the scene be a mapping (no section name twice) in which the scan of the
  names identifies the set \<open>ids\<close>. Then (1) when the first element of every list entry of
  every list section is hashable (a number, a string, a boolean or null) and the path
  names a file, \<open>cleanup_scene_colliders\<close> returns normally; and (2) whenever it returns
  normally, the scene file then holds the same sections in the same order, where each
  section whose value is a list has exactly its retained entries, unchanged and in
  their original order (the entries that are not lists, the empty lists, and the lists
  whose first element is not in \<open>ids\<close>), and every other section has its value unchanged.
\<close>

theorem cleanup_filters_sections:
  assumes "files w p = Some (Doc (JDict d))"
      and "distinct (map fst d)"
      and "find_colliders (JDict d) = (Inr ids, found)"
  shows "((\<forall>k es. (k, JList es) \<in> set d \<longrightarrow> (\<forall>e\<in>set es. entry_id_hashable e)) \<and> path_name p \<noteq> []
            \<longrightarrow> fst (cleanup_scene_colliders p w) = Inr ())
       \<and> (fst (cleanup_scene_colliders p w) = Inr ()
            \<longrightarrow> files (snd (cleanup_scene_colliders p w)) p
                  = Some (Doc (JDict (map (\<lambda>(k, v). (k, cleaned_section ids v)) d))))"
proof (cases "ids = []")
  case True
  with assms(1,3) have "cleanup_scene_colliders p w
      = (Inr (), say [Msg_NoColliders] (say (found @ [Msg_Total 0]) (say [Msg_Cleaning p] w)))"
    by (simp add: cleanup_scene_colliders_def Let_def load_json_def)
  moreover have "map (\<lambda>(k, v). (k, cleaned_section ids v)) d = d"
    by (simp add: True cleaned_section_no_ids)
  ultimately show ?thesis using assms(1) by simp
next
  case False
  let ?w1 = "say (found @ [Msg_Total (length ids)]) (say [Msg_Cleaning p] w)"
  have run: "cleanup_scene_colliders p w =
     (case clean_sections ids d d 0 [] of
        (Inl e, cleaned_msgs) \<Rightarrow> (Inl e, say cleaned_msgs ?w1)
      | (Inr (cleaned, sections_cleaned), cleaned_msgs) \<Rightarrow>
          (case with_suffix p ''.json.backup'' of
             Inl e \<Rightarrow> (Inl e, say cleaned_msgs ?w1)
           | Inr backup_path \<Rightarrow>
               (Inr (),
                say [Msg_Complete sections_cleaned, Msg_Removed (length ids)]
                  (write_json p (JDict cleaned)
                     (say [Msg_Backup backup_path]
                        (write_json backup_path (JDict cleaned) (say cleaned_msgs ?w1)))))))"
    using assms(1,3) False
    by (simp add: cleanup_scene_colliders_def Let_def load_json_def)
  show ?thesis
  proof (intro conjI impI)
    assume wf: "(\<forall>k es. (k, JList es) \<in> set d \<longrightarrow> (\<forall>e\<in>set es. entry_id_hashable e)) \<and> path_name p \<noteq> []"
    then obtain r ms' where "clean_sections ids d d 0 [] = (Inr r, ms')"
      using clean_sections_ok [of d ids d 0 "[]"] by blast
    with wf show "fst (cleanup_scene_colliders p w) = Inr ()"
      by (cases r) (simp add: run with_suffix_def)
  next
    assume ok: "fst (cleanup_scene_colliders p w) = Inr ()"
    obtain res ms' where c: "clean_sections ids d d 0 [] = (res, ms')"
      by (cases "clean_sections ids d d 0 []")
    with ok obtain cleaned n' where r: "res = Inr (cleaned, n')"
      by (cases res) (auto simp: run)
    from clean_sections_Inr [of "[]" d ids 0 "[]" cleaned n' ms'] assms(2) c r
    have cl: "cleaned = map (\<lambda>(k, v). (k, cleaned_section ids v)) d" by simp
    from ok c r obtain backup_path where "with_suffix p ''.json.backup'' = Inr backup_path"
      by (cases "with_suffix p ''.json.backup''") (auto simp: run)
    with c r cl show "files (snd (cleanup_scene_colliders p w)) p
                  = Some (Doc (JDict (map (\<lambda>(k, v). (k, cleaned_section ids v)) d)))"
      by (simp add: run)
  qed
qed

theorem cleanup_filters_sections_witness:
  "files example_world ''scenes/main.json'' = Some (Doc example_scene)
   \<and> find_colliders example_scene = (Inr [JInt 1], [Msg_Found (JInt 1) ''CompositeCollider_A''])
   \<and> path_name ''scenes/main.json'' \<noteq> []
   \<and> fst (cleanup_scene_colliders ''scenes/main.json'' example_world) = Inr ()
   \<and> files (snd (cleanup_scene_colliders ''scenes/main.json'' example_world)) ''scenes/main.json''
       = Some (Doc (JDict [(''names'', JList [JList [JInt 2, JStr ''Player'']]),
                           (''bodies'', JList [JList [JInt 2, JDict [(''mass'', JInt 7)]]]),
                           (''version'', JInt 3)]))"
proof -
  let ?d = "[(''names'', JList [JList [JInt 1, JStr ''CompositeCollider_A''],
                               JList [JInt 2, JStr ''Player'']]),
            (''bodies'', JList [JList [JInt 1, JDict [(''mass'', JInt 5)]],
                                JList [JInt 2, JDict [(''mass'', JInt 7)]]]),
            (''version'', JInt 3)]"
  have a: "files example_world ''scenes/main.json'' = Some (Doc (JDict ?d))"
    by (simp add: example_world_def example_scene_def)
  have b: "distinct (map fst ?d)" by simp
  have c: "find_colliders (JDict ?d) = (Inr [JInt 1], [Msg_Found (JInt 1) ''CompositeCollider_A''])"
    by (simp add: seq_getitem_def is_collider_name_def set_add_def py_in_def)
  have d: "(\<forall>k es. (k, JList es) \<in> set ?d \<longrightarrow> (\<forall>e\<in>set es. entry_id_hashable e))
             \<and> path_name ''scenes/main.json'' \<noteq> []"
    by (auto simp: entry_id_hashable_def path_name_def)
  have e: "map (\<lambda>(k, v). (k, cleaned_section [JInt 1] v)) ?d
             = [(''names'', JList [JList [JInt 2, JStr ''Player'']]),
                (''bodies'', JList [JList [JInt 2, JDict [(''mass'', JInt 7)]]]),
                (''version'', JInt 3)]"
    by (simp add: cleaned_section_def retained_def py_in_def py_eq_key_def)
  from cleanup_filters_sections [OF a b c] a c d e show ?thesis
    by (simp add: example_scene_def)
qed

end
